theory Spec2Isabelle
  imports Complex_Main "HOL-Library.Sublist" "HOL-Library.AList"
begin

section \<open>Python values, exceptions and library functions\<close>

text \<open>
  The three modules work on values decoded from JSON (the answers of the weather and
  geocoding services, the two files of the local store) and build dictionaries of such
  values. A decoded document is a \<open>json\<close> value; a dictionary is the list of its items
  in insertion order, with distinct keys.

  Python's \<open>float\<close> is an IEEE 754 binary64 number: a finite number, given by its exact
  value (\<open>Finite 0\<close> is \<open>0.0\<close>), or \<open>-0.0\<close>, an infinity (the flag is set for the negative
  one) or NaN. The decoder of JSON gives all of them.
\<close>

datatype pyfloat = Finite rat | NegZero | Infinity bool | NaN

datatype json =
    JNull
  | JBool bool
  | JInt int
  | JFloat pyfloat
  | JStr string
  | JArr "json list"
  | JObj "(string \<times> json) list"

text \<open>
  Exceptions carry the text that \<open>str(e)\<close> gives. \<open>RequestException\<close> stands for
  \<open>requests.exceptions.RequestException\<close> and its subclasses (connection errors,
  timeouts, the \<open>HTTPError\<close> of \<open>raise_for_status\<close>). A body that is not JSON makes
  \<open>response.json()\<close> raise an exception that, depending on the version of the library,
  is a \<open>RequestException\<close> as well as a \<open>json.JSONDecodeError\<close>
  (\<open>RequestsJSONDecodeError\<close>) or only the latter (\<open>JSONDecodeError\<close>).
  \<open>Exception\<close> is a plain \<open>Exception(msg)\<close>, the only kind the modules raise themselves.
\<close>

datatype exn =
    RequestException string
  | RequestsJSONDecodeError string
  | JSONDecodeError string
  | KeyError string
  | IndexError string
  | TypeError string
  | AttributeError string
  | ValueError string
  | OverflowError string
  | Exception string

fun str_exn :: "exn \<Rightarrow> string" where
  "str_exn (RequestException m) = m"
| "str_exn (RequestsJSONDecodeError m) = m"
| "str_exn (JSONDecodeError m) = m"
| "str_exn (KeyError m) = m"
| "str_exn (IndexError m) = m"
| "str_exn (TypeError m) = m"
| "str_exn (AttributeError m) = m"
| "str_exn (ValueError m) = m"
| "str_exn (OverflowError m) = m"
| "str_exn (Exception m) = m"

text \<open>Sequencing of statements that may raise: the first exception ends the block.\<close>

definition bnd :: "exn + 'a \<Rightarrow> ('a \<Rightarrow> exn + 'b) \<Rightarrow> exn + 'b" where
  "bnd m f = (case m of Inl e \<Rightarrow> Inl e | Inr v \<Rightarrow> f v)"

text \<open>
  A naive \<open>datetime\<close>. The calendar date is held as its proleptic Gregorian ordinal
  (\<open>date.toordinal()\<close>, day 1 is Monday 0001-01-01), which is what \<open>weekday()\<close> and
  \<open>timedelta\<close> arithmetic are computed from.
\<close>

record datetime =
  day_ordinal :: int
  hour :: nat
  minute :: nat
  second :: nat
  microsecond :: nat

datatype iso_parse = NotISO | Naive datetime | Aware

text \<open>
  Library functions whose results the modules only pass on are parameters of the model:
  the case mappings of \<open>str\<close>, \<open>int(s)\<close> on a string, \<open>str(x)\<close> on floats and
  containers, and the ISO 8601 printer and parser of \<open>datetime\<close>.
\<close>

record pylib =
  str_lower :: "string \<Rightarrow> string"
  str_upper :: "string \<Rightarrow> string"
  str_title :: "string \<Rightarrow> string"
  int_of_str :: "string \<Rightarrow> int option"
  str_other :: "json \<Rightarrow> string"
  fromisoformat :: "string \<Rightarrow> iso_parse"
  dt_isoformat :: "datetime \<Rightarrow> string"
  date_isoformat :: "int \<Rightarrow> string"

subsection \<open>Rendering integers\<close>

definition digit_char :: "nat \<Rightarrow> char" where
  "digit_char d = char_of (48 + d)"

fun str_nat :: "nat \<Rightarrow> string" where
  "str_nat n = (if n < 10 then [digit_char n] else str_nat (n div 10) @ [digit_char (n mod 10)])"

declare str_nat.simps [simp del]

definition str_int :: "int \<Rightarrow> string" where
  "str_int i = (if i < 0 then CHR ''-'' # str_nat (nat (- i)) else str_nat (nat i))"

definition key_repr :: "string \<Rightarrow> string" where
  "key_repr k = [CHR 0x27] @ k @ [CHR 0x27]"

fun type_name :: "json \<Rightarrow> string" where
  "type_name JNull = ''NoneType''"
| "type_name (JBool b) = ''bool''"
| "type_name (JInt i) = ''int''"
| "type_name (JFloat x) = ''float''"
| "type_name (JStr s) = ''str''"
| "type_name (JArr xs) = ''list''"
| "type_name (JObj kvs) = ''dict''"

definition no_attribute :: "json \<Rightarrow> string \<Rightarrow> exn" where
  "no_attribute v a =
     AttributeError (key_repr (type_name v) @ '' object has no attribute '' @ key_repr a)"

subsection \<open>Operations on values\<close>

text \<open>\<open>v[k]\<close> with a string \<open>k\<close>.\<close>

fun subscript_key :: "json \<Rightarrow> string \<Rightarrow> exn + json" where
  "subscript_key (JObj kvs) k =
     (case map_of kvs k of Some v \<Rightarrow> Inr v | None \<Rightarrow> Inl (KeyError (key_repr k)))"
| "subscript_key (JArr xs) k =
     Inl (TypeError ''list indices must be integers or slices, not str'')"
| "subscript_key (JStr s) k = Inl (TypeError ''string indices must be integers'')"
| "subscript_key v k = Inl (TypeError (key_repr (type_name v) @ '' object is not subscriptable''))"

text \<open>\<open>v[i]\<close> with a literal index \<open>i \<ge> 0\<close>.\<close>

fun subscript_idx :: "json \<Rightarrow> nat \<Rightarrow> exn + json" where
  "subscript_idx (JArr xs) i =
     (if i < length xs then Inr (xs ! i) else Inl (IndexError ''list index out of range''))"
| "subscript_idx (JStr s) i =
     (if i < length s then Inr (JStr [s ! i]) else Inl (IndexError ''string index out of range''))"
| "subscript_idx (JObj kvs) i = Inl (KeyError (str_nat i))"
| "subscript_idx v i = Inl (TypeError (key_repr (type_name v) @ '' object is not subscriptable''))"

text \<open>\<open>v.get(k, d)\<close>.\<close>

fun dict_get :: "json \<Rightarrow> string \<Rightarrow> json \<Rightarrow> exn + json" where
  "dict_get (JObj kvs) k d = (case map_of kvs k of Some v \<Rightarrow> Inr v | None \<Rightarrow> Inr d)"
| "dict_get v k d = Inl (no_attribute v ''get'')"

text \<open>\<open>len(v)\<close>.\<close>

fun py_len :: "json \<Rightarrow> exn + nat" where
  "py_len (JArr xs) = Inr (length xs)"
| "py_len (JStr s) = Inr (length s)"
| "py_len (JObj kvs) = Inr (length kvs)"
| "py_len v = Inl (TypeError (''object of type '' @ key_repr (type_name v) @ '' has no len()''))"

text \<open>The elements that \<open>for x in v\<close> runs through.\<close>

fun py_iter :: "json \<Rightarrow> exn + json list" where
  "py_iter (JArr xs) = Inr xs"
| "py_iter (JStr s) = Inr (map (\<lambda>c. JStr [c]) s)"
| "py_iter (JObj kvs) = Inr (map (\<lambda>kv. JStr (fst kv)) kvs)"
| "py_iter v = Inl (TypeError (key_repr (type_name v) @ '' object is not iterable''))"

text \<open>\<open>k in v\<close> with a string \<open>k\<close>.\<close>

fun py_in :: "string \<Rightarrow> json \<Rightarrow> exn + bool" where
  "py_in k (JObj kvs) = Inr (k \<in> fst ` set kvs)"
| "py_in k (JArr xs) = Inr (JStr k \<in> set xs)"
| "py_in k (JStr s) = Inr (sublist k s)"
| "py_in k v =
     Inl (TypeError (''argument of type '' @ key_repr (type_name v) @ '' is not iterable''))"

text \<open>Truth value of a value in a condition.\<close>

fun truthy :: "json \<Rightarrow> bool" where
  "truthy JNull = False"
| "truthy (JBool b) = b"
| "truthy (JInt i) = (i \<noteq> 0)"
| "truthy (JFloat x) = (x \<noteq> Finite 0 \<and> x \<noteq> NegZero)"
| "truthy (JStr s) = (s \<noteq> [])"
| "truthy (JArr xs) = (xs \<noteq> [])"
| "truthy (JObj kvs) = (kvs \<noteq> [])"

text \<open>\<open>v.lower()\<close>, \<open>v.upper()\<close>, \<open>v.title()\<close>: methods of \<open>str\<close> only.\<close>

fun py_lower :: "pylib \<Rightarrow> json \<Rightarrow> exn + string" where
  "py_lower L (JStr s) = Inr (str_lower L s)"
| "py_lower L v = Inl (no_attribute v ''lower'')"

fun py_upper :: "pylib \<Rightarrow> json \<Rightarrow> exn + string" where
  "py_upper L (JStr s) = Inr (str_upper L s)"
| "py_upper L v = Inl (no_attribute v ''upper'')"

fun py_title :: "pylib \<Rightarrow> json \<Rightarrow> exn + string" where
  "py_title L (JStr s) = Inr (str_title L s)"
| "py_title L v = Inl (no_attribute v ''title'')"

text \<open>\<open>str(v)\<close>, also what an f-string puts for \<open>{v}\<close>.\<close>

fun py_str :: "pylib \<Rightarrow> json \<Rightarrow> string" where
  "py_str L (JStr s) = s"
| "py_str L (JInt i) = str_int i"
| "py_str L JNull = ''None''"
| "py_str L (JBool b) = (if b then ''True'' else ''False'')"
| "py_str L v = str_other L v"

section \<open>The local store (data\_storage.py)\<close>

text \<open>
  A file holds either text that \<open>json.load\<close> rejects or a document. The file system maps
  paths to contents. The data directory is taken to exist and to be writable, and a
  document written by \<open>json.dump\<close> is read back as it was written.
\<close>

datatype file_content = Malformed | Doc json

type_synonym filesystem = "string \<Rightarrow> file_content option"

record storage =
  data_dir :: string
  history_file :: string
  search_file :: string

text \<open>\<open>os.path.join\<close> of a directory and a file name, with the separator of POSIX.\<close>

definition path_join :: "string \<Rightarrow> string \<Rightarrow> string" where
  "path_join d f = (if d = [] \<or> last d = CHR ''/'' then d @ f else d @ ''/'' @ f)"

definition read_json :: "string \<Rightarrow> filesystem \<Rightarrow> json" where
  "read_json filepath fs =
     (case fs filepath of
        Some (Doc v) \<Rightarrow> v
      | _ \<Rightarrow> (if sublist ''history'' filepath then JObj [] else JArr []))"

definition write_json :: "string \<Rightarrow> json \<Rightarrow> filesystem \<Rightarrow> filesystem" where
  "write_json filepath v fs = fs(filepath \<mapsto> Doc v)"

definition new_storage :: "string \<Rightarrow> filesystem \<Rightarrow> storage \<times> filesystem" where
  "new_storage dir fs =
     (let self = \<lparr>data_dir = dir,
                  history_file = path_join dir ''weather_history.json'',
                  search_file = path_join dir ''search_history.json''\<rparr>;
          fs1 = (if fs (history_file self) = None
                 then write_json (history_file self) (JObj []) fs else fs);
          fs2 = (if fs1 (search_file self) = None
                 then write_json (search_file self) (JArr []) fs1 else fs1)
      in (self, fs2))"

subsection \<open>The week filter\<close>

definition weekday :: "datetime \<Rightarrow> nat" where
  "weekday d = nat ((day_ordinal d + 6) mod 7)"

text \<open>Comparison of naive datetimes: field by field, the date first.\<close>

definition dt_key :: "datetime \<Rightarrow> int \<times> nat \<times> nat \<times> nat \<times> nat" where
  "dt_key d = (day_ordinal d, hour d, minute d, second d, microsecond d)"

fun tuple_ge :: "int \<times> nat \<times> nat \<times> nat \<times> nat \<Rightarrow> int \<times> nat \<times> nat \<times> nat \<times> nat \<Rightarrow> bool" where
  "tuple_ge (a1, a2, a3, a4, a5) (b1, b2, b3, b4, b5) =
     (if a1 \<noteq> b1 then a1 > b1
      else if a2 \<noteq> b2 then a2 > b2
      else if a3 \<noteq> b3 then a3 > b3
      else if a4 \<noteq> b4 then a4 > b4
      else a5 \<ge> b5)"

definition dt_ge :: "datetime \<Rightarrow> datetime \<Rightarrow> bool" where
  "dt_ge a b = tuple_ge (dt_key a) (dt_key b)"

definition start_of_week :: "datetime \<Rightarrow> datetime" where
  "start_of_week now =
     now\<lparr>day_ordinal := day_ordinal now - int (weekday now),
         hour := 0, minute := 0, second := 0, microsecond := 0\<rparr>"

text \<open>
  The body of the \<open>try\<close> for one entry: whether it is appended. A timestamp that is not
  a string makes \<open>fromisoformat\<close> raise \<open>TypeError\<close>, and so does the comparison of a
  timestamp that carries a UTC offset with the naive start of the week.
\<close>

definition in_current_week :: "pylib \<Rightarrow> datetime \<Rightarrow> json \<Rightarrow> exn + bool" where
  "in_current_week L sow entry =
     bnd (subscript_key entry ''timestamp'') (\<lambda>t.
       case t of
         JStr s \<Rightarrow>
           (case fromisoformat L s of
              NotISO \<Rightarrow> Inl (ValueError (''Invalid isoformat string: '' @ key_repr s))
            | Aware \<Rightarrow>
                Inl (TypeError ''can't compare offset-naive and offset-aware datetimes'')
            | Naive ts \<Rightarrow> Inr (dt_ge ts sow))
       | _ \<Rightarrow> Inl (TypeError ''fromisoformat: argument must be str''))"

fun filter_loop :: "pylib \<Rightarrow> datetime \<Rightarrow> json list \<Rightarrow> exn + json list" where
  "filter_loop L sow [] = Inr []"
| "filter_loop L sow (entry # rest) =
     (case in_current_week L sow entry of
        Inr keep \<Rightarrow>
          bnd (filter_loop L sow rest) (\<lambda>filtered.
            Inr (if keep then entry # filtered else filtered))
      | Inl (KeyError m) \<Rightarrow> filter_loop L sow rest
      | Inl (ValueError m) \<Rightarrow> filter_loop L sow rest
      | Inl e \<Rightarrow> Inl e)"

definition filter_current_week :: "pylib \<Rightarrow> datetime \<Rightarrow> json \<Rightarrow> exn + json list" where
  "filter_current_week L now data_list =
     bnd (py_iter data_list) (filter_loop L (start_of_week now))"

subsection \<open>Weather history\<close>

text \<open>
  Every operation takes the file system and returns its result, or the exception it
  raises, together with the file system it leaves.
\<close>

definition get_weather_history ::
  "pylib \<Rightarrow> datetime \<Rightarrow> storage \<Rightarrow> string \<Rightarrow> filesystem \<Rightarrow> (exn + json list) \<times> filesystem" where
  "get_weather_history L now self city fs =
     (let history = read_json (history_file self) fs;
          city_key = str_lower L city
      in (bnd (py_in city_key history) (\<lambda>present.
            if \<not> present then Inr []
            else bnd (subscript_key history city_key) (filter_current_week L now)),
          fs))"

subsection \<open>Search history\<close>

text \<open>
  The comprehension \<open>[s for s in searches if s['city'].lower() != city.lower()]\<close>,
  element by element.
\<close>

fun without_city :: "pylib \<Rightarrow> string \<Rightarrow> json list \<Rightarrow> exn + json list" where
  "without_city L city [] = Inr []"
| "without_city L city (s # rest) =
     bnd (subscript_key s ''city'') (\<lambda>c.
     bnd (py_lower L c) (\<lambda>l.
     bnd (without_city L city rest) (\<lambda>kept.
       Inr (if l \<noteq> str_lower L city then s # kept else kept))))"

definition search_entry :: "pylib \<Rightarrow> string \<times> datetime \<Rightarrow> json" where
  "search_entry L c =
     JObj [(''city'', JStr (fst c)), (''timestamp'', JStr (dt_isoformat L (snd c)))]"

definition add_search ::
  "pylib \<Rightarrow> datetime \<Rightarrow> storage \<Rightarrow> string \<Rightarrow> filesystem \<Rightarrow> (exn + unit) \<times> filesystem" where
  "add_search L now self city fs =
     (let searches = read_json (search_file self) fs
      in case bnd (py_iter searches) (without_city L city) of
           Inl e \<Rightarrow> (Inl e, fs)
         | Inr kept \<Rightarrow>
             (Inr (),
              write_json (search_file self)
                (JArr (take 20 (search_entry L (city, now) # kept))) fs))"

fun city_names :: "json list \<Rightarrow> exn + json list" where
  "city_names [] = Inr []"
| "city_names (s # rest) =
     bnd (subscript_key s ''city'') (\<lambda>c.
     bnd (city_names rest) (\<lambda>cs. Inr (c # cs)))"

definition get_search_history ::
  "storage \<Rightarrow> filesystem \<Rightarrow> (exn + json list) \<times> filesystem" where
  "get_search_history self fs =
     (bnd (py_iter (read_json (search_file self) fs)) city_names, fs)"

text \<open>
  A sequence of \<open>add_search\<close> calls, each with the city searched and the reading of the
  clock at the call; it stops at the first call that raises.
\<close>

fun record_searches ::
  "pylib \<Rightarrow> storage \<Rightarrow> (string \<times> datetime) list \<Rightarrow> filesystem \<Rightarrow> (exn + unit) \<times> filesystem" where
  "record_searches L self [] fs = (Inr (), fs)"
| "record_searches L self (c # calls) fs =
     (case add_search L (snd c) self (fst c) fs of
        (Inl e, fs') \<Rightarrow> (Inl e, fs')
      | (Inr u, fs') \<Rightarrow> record_searches L self calls fs')"

text \<open>
  The most recent searches first, one per city name up to case: the list that the search
  history is compared with.
\<close>

fun newest_first :: "pylib \<Rightarrow> (string \<times> datetime) list \<Rightarrow> (string \<times> datetime) list" where
  "newest_first L [] = []"
| "newest_first L (c # cs) =
     c # filter (\<lambda>d. str_lower L (fst d) \<noteq> str_lower L (fst c)) (newest_first L cs)"

section \<open>The weather source adapter (weather\_scraper.py)\<close>

subsection \<open>HTTP requests\<close>

text \<open>
  What one \<open>requests.get\<close> does is given by the environment: it raises (no connection,
  timeout), or it returns a response with a status code and a body. The body is a JSON
  document or text that \<open>response.json()\<close> rejects; the flag of \<open>NotJSON\<close> says whether
  the exception raised then is a \<open>RequestException\<close> too.
\<close>

datatype http_body = NotJSON bool string | Decoded json

datatype http_result = Raises string | Response nat http_body

type_synonym response = "nat \<times> http_body"

fun requests_get :: "http_result \<Rightarrow> exn + response" where
  "requests_get (Raises m) = Inl (RequestException m)"
| "requests_get (Response code body) = Inr (code, body)"

definition raise_for_status :: "response \<Rightarrow> exn + unit" where
  "raise_for_status r =
     (if 400 \<le> fst r \<and> fst r < 600
      then Inl (RequestException (str_nat (fst r) @ '' Error'')) else Inr ())"

fun response_json :: "response \<Rightarrow> exn + json" where
  "response_json (code, NotJSON requests_kind m) =
     Inl (if requests_kind then RequestsJSONDecodeError m else JSONDecodeError m)"
| "response_json (code, Decoded v) = Inr v"

subsection \<open>Floating point\<close>

text \<open>
  \<open>double x\<close> is the float nearest to the real number \<open>x\<close>, a tie going to the even
  significand: 53 bits of precision with the exponent of \<open>x\<close>, or that of the subnormal
  numbers below \<open>2 ^ -1022\<close>; an infinity when the rounded magnitude reaches \<open>2 ^ 1024\<close>
  (the exponent is above 1023, or it is 1023 and the significand rounds up to \<open>2 ^ 53\<close>);
  a zero with the sign of \<open>x\<close> when the magnitude rounds to nothing. Arithmetic on floats yields the float nearest
  to the exact result.
\<close>

function bit_length :: "int \<Rightarrow> int" where
  "bit_length a = (if 0 < a then bit_length (a div 2) + 1 else 0)"
  by auto
termination
  by (relation "measure nat") auto

declare bit_length.simps [simp del]

definition pow2 :: "int \<Rightarrow> rat" where
  "pow2 e = (if 0 \<le> e then 2 ^ nat e else 1 / 2 ^ nat (- e))"

text \<open>For \<open>x > 0\<close>, the exponent \<open>e\<close> with \<open>2 ^ e \<le> x < 2 ^ (e + 1)\<close>.\<close>

definition floor_log2 :: "rat \<Rightarrow> int" where
  "floor_log2 x =
     (case quotient_of x of
        (a, b) \<Rightarrow> (let d = bit_length a - bit_length b in if pow2 d \<le> x then d else d - 1))"

definition round_half_even :: "rat \<Rightarrow> int" where
  "round_half_even r =
     (let f = \<lfloor>r\<rfloor>; d = r - of_int f
      in if d < 1 / 2 then f else if 1 / 2 < d then f + 1 else if even f then f else f + 1)"

definition double :: "rat \<Rightarrow> pyfloat" where
  "double x =
     (if x = 0 then Finite 0
      else
        (let e = max (floor_log2 \<bar>x\<bar>) (- 1022);
             q = pow2 (e - 52);
             n = round_half_even (\<bar>x\<bar> / q);
             y = of_int n * q
         in if 1023 < e \<or> (e = 1023 \<and> n = 2 ^ 53) then Infinity (x < 0)
            else if n = 0 then (if x < 0 then NegZero else Finite 0)
            else Finite (if x < 0 then - y else y)))"

text \<open>The value of the literal \<open>3.6\<close>: the float nearest to 18/5.\<close>

definition float_3_6 :: rat where
  "float_3_6 = 8106479329266893 / 2251799813685248"

text \<open>
  \<open>x * c\<close>, \<open>x + c\<close> and \<open>x / c\<close> for a float \<open>x\<close> and a constant \<open>c\<close> that is finite and
  positive, as the constants 3.6, 11.25, 22.5 and 1000 of the module are.
\<close>

fun float_times :: "pyfloat \<Rightarrow> rat \<Rightarrow> pyfloat" where
  "float_times (Finite x) c = double (x * c)"
| "float_times NegZero c = NegZero"
| "float_times (Infinity negative) c = Infinity negative"
| "float_times NaN c = NaN"

fun float_plus :: "pyfloat \<Rightarrow> rat \<Rightarrow> pyfloat" where
  "float_plus (Finite x) c = double (x + c)"
| "float_plus NegZero c = double c"
| "float_plus (Infinity negative) c = Infinity negative"
| "float_plus NaN c = NaN"

fun float_over :: "pyfloat \<Rightarrow> rat \<Rightarrow> pyfloat" where
  "float_over (Finite x) c = double (x / c)"
| "float_over NegZero c = NegZero"
| "float_over (Infinity negative) c = Infinity negative"
| "float_over NaN c = NaN"

text \<open>\<open>int(x)\<close> of a float cuts the fractional part off: it rounds towards zero.\<close>

fun float_to_int :: "pyfloat \<Rightarrow> exn + int" where
  "float_to_int (Finite x) = Inr (if 0 \<le> x then \<lfloor>x\<rfloor> else \<lceil>x\<rceil>)"
| "float_to_int NegZero = Inr 0"
| "float_to_int (Infinity negative) =
     Inl (OverflowError ''cannot convert float infinity to integer'')"
| "float_to_int NaN = Inl (ValueError ''cannot convert float NaN to integer'')"

subsection \<open>Numbers\<close>

definition bad_operand :: "string \<Rightarrow> json \<Rightarrow> string \<Rightarrow> exn" where
  "bad_operand operator v other =
     TypeError (''unsupported operand type(s) for '' @ operator @ '': '' @ key_repr (type_name v)
                @ '' and '' @ key_repr other)"

text \<open>
  The left operand of \<open>v * c\<close> and \<open>v + c\<close> with a float constant \<open>c\<close>, as a float: an
  integer is converted to the nearest float, and one beyond the range of floats raises.
\<close>

fun as_float :: "string \<Rightarrow> json \<Rightarrow> exn + pyfloat" where
  "as_float operator (JInt i) =
     (case double (of_int i) of
        Infinity negative \<Rightarrow> Inl (OverflowError ''int too large to convert to float'')
      | x \<Rightarrow> Inr x)"
| "as_float operator (JFloat x) = Inr x"
| "as_float operator (JBool b) = Inr (Finite (if b then 1 else 0))"
| "as_float operator v = Inl (bad_operand operator v ''float'')"

definition py_mul_float :: "json \<Rightarrow> rat \<Rightarrow> exn + pyfloat" where
  "py_mul_float v c = bnd (as_float ''*'' v) (\<lambda>x. Inr (float_times x c))"

definition py_add_float :: "json \<Rightarrow> rat \<Rightarrow> exn + pyfloat" where
  "py_add_float v c = bnd (as_float ''+'' v) (\<lambda>x. Inr (float_plus x c))"

text \<open>
  \<open>v / n\<close> with a positive integer constant \<open>n\<close>. The quotient of two integers is the
  float nearest to it, and raises when that is beyond the range of floats.
\<close>

fun py_div_int :: "json \<Rightarrow> int \<Rightarrow> exn + pyfloat" where
  "py_div_int (JInt i) n =
     (case double (of_int i / of_int n) of
        Infinity negative \<Rightarrow>
          Inl (OverflowError ''integer division result too large for a float'')
      | x \<Rightarrow> Inr x)"
| "py_div_int (JBool b) n = Inr (double ((if b then 1 else 0) / of_int n))"
| "py_div_int (JFloat x) n = Inr (float_over x (of_int n))"
| "py_div_int v n = Inl (bad_operand ''/'' v ''int'')"

fun py_int :: "pylib \<Rightarrow> json \<Rightarrow> exn + int" where
  "py_int L (JInt i) = Inr i"
| "py_int L (JFloat x) = float_to_int x"
| "py_int L (JBool b) = Inr (if b then 1 else 0)"
| "py_int L (JStr s) =
     (case int_of_str L s of
        Some i \<Rightarrow> Inr i
      | None \<Rightarrow> Inl (ValueError (''invalid literal for int() with base 10: '' @ key_repr s)))"
| "py_int L v =
     Inl (TypeError (''int() argument must be a string, a bytes-like object or a real number, not ''
                     @ key_repr (type_name v)))"

subsection \<open>Current weather\<close>

definition directions :: "string list" where
  "directions = [''N'', ''NNE'', ''NE'', ''ENE'', ''E'', ''ESE'', ''SE'', ''SSE'',
                 ''S'', ''SSW'', ''SW'', ''WSW'', ''W'', ''WNW'', ''NW'', ''NNW'']"

definition degrees_to_direction :: "json \<Rightarrow> exn + string" where
  "degrees_to_direction degrees =
     bnd (py_add_float degrees (45 / 4)) (\<lambda>shifted.
     bnd (float_to_int (float_over shifted (45 / 2))) (\<lambda>index.
       Inr (directions ! nat (index mod 16))))"

text \<open>\<open>location.get(k, [{}])[0].get('value', d)\<close>.\<close>

definition area_value :: "json \<Rightarrow> string \<Rightarrow> json \<Rightarrow> exn + json" where
  "area_value location k d =
     bnd (dict_get location k (JArr [JObj []])) (\<lambda>vs.
     bnd (subscript_idx vs 0) (\<lambda>v. dict_get v ''value'' d))"

text \<open>The body of the \<open>try\<close> of \<open>get_current_weather\<close>: the request to wttr.in.\<close>

definition wttr_current :: "pylib \<Rightarrow> datetime \<Rightarrow> string \<Rightarrow> http_result \<Rightarrow> exn + json" where
  "wttr_current L now city answer =
     bnd (requests_get answer) (\<lambda>response.
     bnd (raise_for_status response) (\<lambda>u.
     bnd (response_json response) (\<lambda>data.
     bnd (bnd (subscript_key data ''current_condition'') (\<lambda>v. subscript_idx v 0)) (\<lambda>current.
     bnd (bnd (subscript_key data ''nearest_area'') (\<lambda>v. subscript_idx v 0)) (\<lambda>location.
     bnd (area_value location ''areaName'' (JStr (str_title L city))) (\<lambda>area_name.
     bnd (area_value location ''country'' (JStr ''Unknown'')) (\<lambda>country.
     bnd (area_value location ''region'' (JStr [])) (\<lambda>region.
     bnd (subscript_key current ''temp_C'') (\<lambda>temperature.
     bnd (subscript_key current ''FeelsLikeC'') (\<lambda>feels_like.
     bnd (bnd (bnd (subscript_key current ''weatherDesc'') (\<lambda>v. subscript_idx v 0))
            (\<lambda>v. subscript_key v ''value'')) (\<lambda>condition.
     bnd (subscript_key current ''humidity'') (\<lambda>humidity.
     bnd (subscript_key current ''windspeedKmph'') (\<lambda>wind_speed.
     bnd (subscript_key current ''winddir16Point'') (\<lambda>wind_direction.
     bnd (subscript_key current ''pressure'') (\<lambda>pressure.
     bnd (subscript_key current ''visibility'') (\<lambda>visibility.
     bnd (subscript_key current ''uvIndex'') (\<lambda>uv_index.
     bnd (subscript_key current ''precipMM'') (\<lambda>precipitation.
     bnd (subscript_key current ''weatherCode'') (\<lambda>weather_code.
       Inr (JObj
         [(''city'', area_name),
          (''country'', country),
          (''region'', region),
          (''temperature'', temperature),
          (''feels_like'', feels_like),
          (''condition'', condition),
          (''humidity'', humidity),
          (''wind_speed'', wind_speed),
          (''wind_direction'', wind_direction),
          (''pressure'', pressure),
          (''visibility'', visibility),
          (''uv_index'', uv_index),
          (''precipitation'', precipitation),
          (''weather_code'', weather_code),
          (''timestamp'', JStr (dt_isoformat L now)),
          (''source'', JStr ''wttr.in'')]))))))))))))))))))))"

text \<open>\<open>data[k1][k2]\<close>.\<close>

definition subscript2 :: "json \<Rightarrow> string \<Rightarrow> string \<Rightarrow> exn + json" where
  "subscript2 data k1 k2 = bnd (subscript_key data k1) (\<lambda>v. subscript_key v k2)"

text \<open>\<open>data['weather'][0][k]\<close>.\<close>

definition first_weather :: "json \<Rightarrow> string \<Rightarrow> exn + json" where
  "first_weather data k =
     bnd (bnd (subscript_key data ''weather'') (\<lambda>v. subscript_idx v 0)) (\<lambda>v. subscript_key v k)"

definition get_weather_from_owm :: "pylib \<Rightarrow> datetime \<Rightarrow> string \<Rightarrow> http_result \<Rightarrow> exn + json" where
  "get_weather_from_owm L now city answer =
     bnd (requests_get answer) (\<lambda>response.
     bnd (raise_for_status response) (\<lambda>u.
     bnd (response_json response) (\<lambda>data.
     bnd (subscript_key data ''name'') (\<lambda>name.
     bnd (subscript2 data ''sys'' ''country'') (\<lambda>country.
     bnd (bnd (subscript2 data ''main'' ''temp'') (py_int L)) (\<lambda>temperature.
     bnd (bnd (subscript2 data ''main'' ''feels_like'') (py_int L)) (\<lambda>feels_like.
     bnd (bnd (first_weather data ''description'') (py_title L)) (\<lambda>condition.
     bnd (subscript2 data ''main'' ''humidity'') (\<lambda>humidity.
     bnd (bnd (bnd (subscript2 data ''wind'' ''speed'') (\<lambda>v. py_mul_float v float_3_6))
            float_to_int) (\<lambda>kmh.
     bnd (bnd (bnd (subscript_key data ''wind'') (\<lambda>w. dict_get w ''deg'' (JInt 0)))
            degrees_to_direction) (\<lambda>wind_direction.
     bnd (subscript2 data ''main'' ''pressure'') (\<lambda>pressure.
     bnd (bnd (bnd (dict_get data ''visibility'' (JInt 10000)) (\<lambda>v. py_div_int v 1000))
            float_to_int) (\<lambda>km.
     bnd (first_weather data ''id'') (\<lambda>weather_id.
       Inr (JObj
         [(''city'', name),
          (''country'', country),
          (''region'', JStr []),
          (''temperature'', JStr (str_int temperature)),
          (''feels_like'', JStr (str_int feels_like)),
          (''condition'', JStr condition),
          (''humidity'', JStr (py_str L humidity)),
          (''wind_speed'', JStr (str_int kmh)),
          (''wind_direction'', JStr wind_direction),
          (''pressure'', JStr (py_str L pressure)),
          (''visibility'', JStr (str_int km)),
          (''uv_index'', JStr ''0''),
          (''precipitation'', JStr ''0''),
          (''weather_code'', JStr (py_str L weather_id)),
          (''timestamp'', JStr (dt_isoformat L now)),
          (''source'', JStr ''OpenWeatherMap'')])))))))))))))))"

text \<open>
  The API key is what \<open>os.getenv\<close> gave: absent, or a string, which counts as configured
  when it is not empty.
\<close>

definition key_configured :: "string option \<Rightarrow> bool" where
  "key_configured key = (case key of None \<Rightarrow> False | Some k \<Rightarrow> k \<noteq> [])"

text \<open>
  \<open>get_current_weather\<close>. The first request of the call is answered by \<open>net 0\<close>, the
  second, when there is one, by \<open>net 1\<close>.
\<close>

definition get_current_weather ::
  "pylib \<Rightarrow> datetime \<Rightarrow> string option \<Rightarrow> string \<Rightarrow> (nat \<Rightarrow> http_result) \<Rightarrow> exn + json" where
  "get_current_weather L now owm_api_key city net =
     (case wttr_current L now city (net 0) of
        Inr weather_data \<Rightarrow> Inr weather_data
      | Inl e \<Rightarrow>
          if key_configured owm_api_key
          then (case get_weather_from_owm L now city (net 1) of
                  Inr weather_data \<Rightarrow> Inr weather_data
                | Inl owm_error \<Rightarrow>
                    Inl (Exception (''Both sources failed - wttr.in: '' @ str_exn e
                                    @ '', OpenWeatherMap: '' @ str_exn owm_error)))
          else Inl (Exception (''wttr.in failed and no OpenWeatherMap API key configured: ''
                               @ str_exn e)))"

subsection \<open>Tomorrow's forecast\<close>

definition hourly_point :: "json \<Rightarrow> exn + json" where
  "hourly_point h =
     bnd (subscript_key h ''time'') (\<lambda>time.
     bnd (subscript_key h ''tempC'') (\<lambda>temp.
     bnd (subscript_key h ''FeelsLikeC'') (\<lambda>feels_like.
     bnd (bnd (bnd (subscript_key h ''weatherDesc'') (\<lambda>v. subscript_idx v 0))
            (\<lambda>v. subscript_key v ''value'')) (\<lambda>condition.
     bnd (subscript_key h ''precipMM'') (\<lambda>precipitation.
     bnd (subscript_key h ''humidity'') (\<lambda>humidity.
     bnd (subscript_key h ''windspeedKmph'') (\<lambda>wind_speed.
     bnd (subscript_key h ''chanceofrain'') (\<lambda>chance_of_rain.
       Inr (JObj
         [(''time'', time),
          (''temp'', temp),
          (''feels_like'', feels_like),
          (''condition'', condition),
          (''precipitation'', precipitation),
          (''humidity'', humidity),
          (''wind_speed'', wind_speed),
          (''chance_of_rain'', chance_of_rain)])))))))))"

fun parse_hourly_loop :: "json list \<Rightarrow> exn + json list" where
  "parse_hourly_loop [] = Inr []"
| "parse_hourly_loop (h # rest) =
     bnd (hourly_point h) (\<lambda>p.
     bnd (parse_hourly_loop rest) (\<lambda>ps. Inr (p # ps)))"

definition parse_hourly :: "json \<Rightarrow> exn + json list" where
  "parse_hourly hourly_data = bnd (py_iter hourly_data) parse_hourly_loop"

text \<open>\<open>tomorrow['astronomy'][0][k]\<close>.\<close>

definition astronomy :: "json \<Rightarrow> string \<Rightarrow> exn + json" where
  "astronomy tomorrow k =
     bnd (bnd (subscript_key tomorrow ''astronomy'') (\<lambda>v. subscript_idx v 0))
       (\<lambda>v. subscript_key v k)"

text \<open>The dictionary built from one daily block.\<close>

definition forecast_data :: "json \<Rightarrow> exn + json" where
  "forecast_data tomorrow =
     bnd (subscript_key tomorrow ''date'') (\<lambda>date.
     bnd (subscript_key tomorrow ''maxtempC'') (\<lambda>max_temp.
     bnd (subscript_key tomorrow ''mintempC'') (\<lambda>min_temp.
     bnd (subscript_key tomorrow ''avgtempC'') (\<lambda>avg_temp.
     bnd (bnd (bnd (bnd (bnd (subscript_key tomorrow ''hourly'') (\<lambda>v. subscript_idx v 4))
            (\<lambda>v. subscript_key v ''weatherDesc'')) (\<lambda>v. subscript_idx v 0))
            (\<lambda>v. subscript_key v ''value'')) (\<lambda>condition.
     bnd (astronomy tomorrow ''sunrise'') (\<lambda>sunrise.
     bnd (astronomy tomorrow ''sunset'') (\<lambda>sunset.
     bnd (astronomy tomorrow ''moonrise'') (\<lambda>moonrise.
     bnd (astronomy tomorrow ''moonset'') (\<lambda>moonset.
     bnd (astronomy tomorrow ''moon_phase'') (\<lambda>moon_phase.
     bnd (subscript_key tomorrow ''totalSnow_cm'') (\<lambda>total_snow.
     bnd (subscript_key tomorrow ''sunHour'') (\<lambda>sun_hour.
     bnd (subscript_key tomorrow ''uvIndex'') (\<lambda>uv_index.
     bnd (bnd (subscript_key tomorrow ''hourly'') parse_hourly) (\<lambda>hourly_forecast.
       Inr (JObj
         [(''date'', date),
          (''max_temp'', max_temp),
          (''min_temp'', min_temp),
          (''avg_temp'', avg_temp),
          (''condition'', condition),
          (''sunrise'', sunrise),
          (''sunset'', sunset),
          (''moonrise'', moonrise),
          (''moonset'', moonset),
          (''moon_phase'', moon_phase),
          (''total_snow'', total_snow),
          (''sun_hour'', sun_hour),
          (''uv_index'', uv_index),
          (''hourly_forecast'', JArr hourly_forecast)])))))))))))))))"

text \<open>The body of the \<open>try\<close> of \<open>get_tomorrow_forecast\<close>.\<close>

definition forecast_attempt :: "http_result \<Rightarrow> exn + json" where
  "forecast_attempt answer =
     bnd (requests_get answer) (\<lambda>response.
     bnd (raise_for_status response) (\<lambda>u.
     bnd (response_json response) (\<lambda>data.
     bnd (bnd (subscript_key data ''weather'') py_len) (\<lambda>n.
       if n > 1
       then bnd (bnd (subscript_key data ''weather'') (\<lambda>v. subscript_idx v 1)) forecast_data
       else Inl (Exception ''Tomorrow's forecast not available'')))))"

text \<open>
  The two \<open>except\<close> clauses, in their order; an exception of another class passes through.
\<close>

fun forecast_handlers :: "exn \<Rightarrow> exn" where
  "forecast_handlers (RequestException m) = Exception (''Failed to fetch forecast data: '' @ m)"
| "forecast_handlers (RequestsJSONDecodeError m) =
     Exception (''Failed to fetch forecast data: '' @ m)"
| "forecast_handlers (KeyError m) = Exception (''Failed to parse forecast data: '' @ m)"
| "forecast_handlers (IndexError m) = Exception (''Failed to parse forecast data: '' @ m)"
| "forecast_handlers (JSONDecodeError m) = Exception (''Failed to parse forecast data: '' @ m)"
| "forecast_handlers e = e"

definition get_tomorrow_forecast :: "string \<Rightarrow> http_result \<Rightarrow> exn + json" where
  "get_tomorrow_forecast city answer =
     (case forecast_attempt answer of
        Inr forecast \<Rightarrow> Inr forecast
      | Inl e \<Rightarrow> Inl (forecast_handlers e))"

subsection \<open>Historical weather\<close>








section \<open>The city resolver (city\_autocomplete.py)\<close>

text \<open>
  The resolver keeps a cache and the time of the last request. The world outside has a
  wall clock, in seconds, and a log of the times at which requests to the geocoding
  service were sent. Time passes only in \<open>time.sleep\<close> and while a request is under way;
  how long the request takes and what it returns is given by the environment.
\<close>

record autocomplete =
  cache :: "string \<Rightarrow> json list option"
  last_request_time :: rat
  min_request_interval :: rat

definition new_autocomplete :: autocomplete where
  "new_autocomplete = \<lparr>cache = Map.empty, last_request_time = 0, min_request_interval = 1\<rparr>"

record world =
  wall_clock :: rat
  requests_sent :: "rat list"

definition sleep :: "rat \<Rightarrow> world \<Rightarrow> world" where
  "sleep seconds w = w\<lparr>wall_clock := wall_clock w + seconds\<rparr>"

definition send_request :: "rat \<Rightarrow> world \<Rightarrow> world" where
  "send_request latency w =
     w\<lparr>requests_sent := requests_sent w @ [wall_clock w], wall_clock := wall_clock w + latency\<rparr>"

text \<open>\<open>a or b\<close> on values, with \<open>b\<close> evaluated only when \<open>a\<close> is false.\<close>

definition py_or :: "json \<Rightarrow> (exn + json) \<Rightarrow> exn + json" where
  "py_or a b = (if truthy a then Inr a else b)"

text \<open>One round of the loop over the results: the city appended, if any.\<close>

definition city_of_result :: "pylib \<Rightarrow> json \<Rightarrow> exn + json option" where
  "city_of_result L result =
     bnd (dict_get result ''address'' (JObj [])) (\<lambda>address.
     bnd (bnd (dict_get address ''city'' JNull) (\<lambda>a.
            py_or a (bnd (dict_get address ''town'' JNull) (\<lambda>b.
            py_or b (bnd (dict_get address ''village'' JNull) (\<lambda>c.
            py_or c (bnd (dict_get address ''municipality'' JNull) (\<lambda>d.
            py_or d (dict_get result ''name'' (JStr [])))))))))) (\<lambda>city_name.
     bnd (dict_get address ''country'' (JStr ''Unknown'')) (\<lambda>country.
     bnd (bnd (dict_get address ''country_code'' (JStr [])) (py_upper L)) (\<lambda>country_code.
     bnd (dict_get address ''state'' (JStr [])) (\<lambda>state.
       if truthy city_name \<and> truthy country
       then
         (let us = (truthy state \<and> country = JStr ''United States'');
              display_name =
                (if us then py_str L city_name @ '', '' @ py_str L state @ '', '' @ country_code
                 else py_str L city_name @ '', '' @ py_str L country);
              search_value =
                (if us then py_str L city_name @ '','' @ py_str L state @ '','' @ py_str L country
                 else py_str L city_name @ '','' @ py_str L country)
          in Inr (Some (JObj
               [(''display'', JStr display_name),
                (''value'', JStr search_value),
                (''city'', city_name),
                (''country'', country),
                (''country_code'', JStr country_code),
                (''state'', state)])))
       else Inr None)))))"

fun cities_loop :: "pylib \<Rightarrow> json list \<Rightarrow> exn + json list" where
  "cities_loop L [] = Inr []"
| "cities_loop L (result # rest) =
     bnd (city_of_result L result) (\<lambda>c.
     bnd (cities_loop L rest) (\<lambda>cs. Inr (case c of None \<Rightarrow> cs | Some d \<Rightarrow> d # cs)))"

text \<open>Removal of duplicates by display name; every city built above has one.\<close>

fun unique_loop :: "json set \<Rightarrow> json list \<Rightarrow> exn + json list" where
  "unique_loop seen [] = Inr []"
| "unique_loop seen (city # rest) =
     bnd (subscript_key city ''display'') (\<lambda>d.
       if d \<notin> seen then bnd (unique_loop (insert d seen) rest) (\<lambda>us. Inr (city # us))
       else unique_loop seen rest)"

text \<open>
  The \<open>try\<close> of \<open>search_cities\<close> in two parts: up to \<open>raise_for_status\<close>, and from
  \<open>response.json()\<close> on. The time of the last request is set between the two.
\<close>

definition checked_response :: "http_result \<Rightarrow> exn + response" where
  "checked_response answer =
     bnd (requests_get answer) (\<lambda>response.
     bnd (raise_for_status response) (\<lambda>u. Inr response))"

definition unique_cities :: "pylib \<Rightarrow> response \<Rightarrow> exn + json list" where
  "unique_cities L response =
     bnd (response_json response) (\<lambda>results.
     bnd (py_iter results) (\<lambda>rs.
     bnd (cities_loop L rs) (unique_loop {})))"

definition cache_key :: "pylib \<Rightarrow> string \<Rightarrow> int \<Rightarrow> string" where
  "cache_key L query limit = str_lower L query @ ''_'' @ str_int limit"

text \<open>
  \<open>search_cities\<close>: the sequence returned, the resolver and the world after the call.
  \<open>answer\<close> and \<open>latency\<close> describe the request, if the call sends one.
\<close>

definition search_cities ::
  "pylib \<Rightarrow> string \<Rightarrow> int \<Rightarrow> http_result \<Rightarrow> rat \<Rightarrow> autocomplete \<Rightarrow> world
     \<Rightarrow> json list \<times> autocomplete \<times> world" where
  "search_cities L query limit answer latency self w =
     (if length query < 2 then ([], self, w)
      else
        (case cache self (cache_key L query limit) of
           Some cached \<Rightarrow> (cached, self, w)
         | None \<Rightarrow>
             (let current_time = wall_clock w;
                  time_since_last = current_time - last_request_time self;
                  w1 = (if time_since_last < min_request_interval self
                        then sleep (min_request_interval self - time_since_last) w else w);
                  w2 = send_request latency w1
              in case checked_response answer of
                   Inl e \<Rightarrow> ([], self, w2)
                 | Inr response \<Rightarrow>
                     (let self1 = self\<lparr>last_request_time := wall_clock w2\<rparr>
                      in case unique_cities L response of
                           Inl e \<Rightarrow> ([], self1, w2)
                         | Inr unique \<Rightarrow>
                             (unique,
                              self1\<lparr>cache := (cache self1)(cache_key L query limit \<mapsto> unique)\<rparr>,
                              w2)))))"

text \<open>
  The resolver after further calls of \<open>search_cities\<close>, each with its query, limit and
  request, made in some state of the world.
\<close>

fun after_searches ::
  "pylib \<Rightarrow> (string \<times> int \<times> http_result \<times> rat \<times> world) list \<Rightarrow> autocomplete \<Rightarrow> autocomplete" where
  "after_searches L [] self = self"
| "after_searches L ((query, limit, answer, latency, w) # calls) self =
     after_searches L calls (fst (snd (search_cities L query limit answer latency self w)))"

section \<open>An instance of the library functions\<close>

text \<open>
  For evaluating the model on concrete inputs: the case mappings on ASCII letters,
  \<open>int\<close> on plain decimal literals, and the ISO 8601 format that \<open>isoformat()\<close> prints
  for a naive datetime, \<open>YYYY-MM-DDTHH:MM:SS\<close> with \<open>.ffffff\<close> when the microsecond is
  not zero. The calendar follows \<open>datetime.py\<close>.
\<close>

definition ascii_lower :: "char \<Rightarrow> char" where
  "ascii_lower c =
     (if 65 \<le> (of_char c :: nat) \<and> (of_char c :: nat) \<le> 90 then char_of (of_char c + 32 :: nat) else c)"

definition ascii_upper :: "char \<Rightarrow> char" where
  "ascii_upper c =
     (if 97 \<le> (of_char c :: nat) \<and> (of_char c :: nat) \<le> 122 then char_of (of_char c - 32 :: nat) else c)"

definition is_letter :: "char \<Rightarrow> bool" where
  "is_letter c = (ascii_lower c \<noteq> c \<or> ascii_upper c \<noteq> c)"

fun title_from :: "bool \<Rightarrow> string \<Rightarrow> string" where
  "title_from prev [] = []"
| "title_from prev (c # cs) =
     (if prev then ascii_lower c else ascii_upper c) # title_from (is_letter c) cs"

definition is_digit :: "char \<Rightarrow> bool" where
  "is_digit c = (48 \<le> (of_char c :: nat) \<and> (of_char c :: nat) \<le> 57)"

definition digits_value :: "string \<Rightarrow> nat" where
  "digits_value s = foldl (\<lambda>acc c. 10 * acc + (of_char c - 48)) 0 s"

definition all_digits :: "string \<Rightarrow> bool" where
  "all_digits s = (s \<noteq> [] \<and> list_all is_digit s)"

definition decimal_literal :: "string \<Rightarrow> int option" where
  "decimal_literal s =
     (case s of
        [] \<Rightarrow> None
      | c # cs \<Rightarrow>
          if c = CHR ''-'' then (if all_digits cs then Some (- int (digits_value cs)) else None)
          else if all_digits s then Some (int (digits_value s)) else None)"

definition is_leap :: "int \<Rightarrow> bool" where
  "is_leap y = (y mod 4 = 0 \<and> (y mod 100 \<noteq> 0 \<or> y mod 400 = 0))"

definition days_before_year :: "int \<Rightarrow> int" where
  "days_before_year y = (y - 1) * 365 + (y - 1) div 4 - (y - 1) div 100 + (y - 1) div 400"

definition days_in_month :: "int \<Rightarrow> nat \<Rightarrow> int" where
  "days_in_month y m =
     (if m = 2 then (if is_leap y then 29 else 28)
      else if m = 4 \<or> m = 6 \<or> m = 9 \<or> m = 11 then 30 else 31)"

fun days_before_month :: "int \<Rightarrow> nat \<Rightarrow> int" where
  "days_before_month y 0 = 0"
| "days_before_month y (Suc m) = (if m = 0 then 0 else days_before_month y m + days_in_month y m)"

definition ymd2ord :: "int \<Rightarrow> nat \<Rightarrow> int \<Rightarrow> int" where
  "ymd2ord y m d = days_before_year y + days_before_month y m + d"

fun month_of :: "int \<Rightarrow> int \<Rightarrow> nat \<Rightarrow> nat \<Rightarrow> nat \<times> int" where
  "month_of y n m 0 = (m, n)"
| "month_of y n m (Suc fuel) =
     (if n < days_in_month y m then (m, n) else month_of y (n - days_in_month y m) (Suc m) fuel)"

definition ord2ymd :: "int \<Rightarrow> int \<times> nat \<times> int" where
  "ord2ymd ordinal =
     (let n = ordinal - 1;
          n400 = n div 146097; r400 = n mod 146097;
          n100 = r400 div 36524; r100 = r400 mod 36524;
          n4 = r100 div 1461; r4 = r100 mod 1461;
          n1 = r4 div 365; r1 = r4 mod 365;
          y = n400 * 400 + 1 + n100 * 100 + n4 * 4 + n1
      in if n1 = 4 \<or> n100 = 4 then (y - 1, 12, 31)
         else (case month_of y r1 1 11 of (m, d) \<Rightarrow> (y, m, d + 1)))"

definition pad :: "nat \<Rightarrow> nat \<Rightarrow> string" where
  "pad w n = replicate (w - length (str_nat n)) CHR ''0'' @ str_nat n"

definition iso_date :: "int \<Rightarrow> string" where
  "iso_date ordinal =
     (case ord2ymd ordinal of
        (y, m, d) \<Rightarrow> pad 4 (nat y) @ ''-'' @ pad 2 m @ ''-'' @ pad 2 (nat d))"

definition iso_datetime :: "datetime \<Rightarrow> string" where
  "iso_datetime t =
     iso_date (day_ordinal t) @ ''T'' @ pad 2 (hour t) @ '':'' @ pad 2 (minute t) @ '':''
       @ pad 2 (second t)
       @ (if microsecond t = 0 then [] else ''.'' @ pad 6 (microsecond t))"

definition parse_date :: "string \<Rightarrow> int option" where
  "parse_date s =
     (if length s = 10 \<and> all_digits (take 4 s) \<and> s ! 4 = CHR ''-'' \<and> all_digits (take 2 (drop 5 s))
         \<and> s ! 7 = CHR ''-'' \<and> all_digits (drop 8 s)
      then (let y = int (digits_value (take 4 s)); m = digits_value (take 2 (drop 5 s));
                d = int (digits_value (drop 8 s))
            in if 1 \<le> y \<and> 1 \<le> m \<and> m \<le> 12 \<and> 1 \<le> d \<and> d \<le> days_in_month y m
               then Some (ymd2ord y m d) else None)
      else None)"

definition parse_time :: "string \<Rightarrow> (nat \<times> nat \<times> nat) option" where
  "parse_time s =
     (if length s = 8 \<and> all_digits (take 2 s) \<and> s ! 2 = CHR '':'' \<and> all_digits (take 2 (drop 3 s))
         \<and> s ! 5 = CHR '':'' \<and> all_digits (drop 6 s)
      then (let h = digits_value (take 2 s); mi = digits_value (take 2 (drop 3 s));
                sec = digits_value (drop 6 s)
            in if h < 24 \<and> mi < 60 \<and> sec < 60 then Some (h, mi, sec) else None)
      else None)"

definition parse_fraction :: "string \<Rightarrow> nat option" where
  "parse_fraction s =
     (if s = [] then Some 0
      else if length s = 7 \<and> hd s = CHR ''.'' \<and> all_digits (tl s) then Some (digits_value (tl s))
      else None)"

definition is_offset :: "string \<Rightarrow> bool" where
  "is_offset s =
     (length s = 6 \<and> (hd s = CHR ''+'' \<or> hd s = CHR ''-'') \<and> all_digits (take 2 (drop 1 s))
        \<and> s ! 3 = CHR '':'' \<and> all_digits (drop 4 s)
        \<and> digits_value (take 2 (drop 1 s)) < 24 \<and> digits_value (drop 4 s) < 60)"

definition parse_iso :: "string \<Rightarrow> iso_parse" where
  "parse_iso s =
     (let aware = (6 \<le> length s \<and> is_offset (drop (length s - 6) s));
          body = (if aware then take (length s - 6) s else s)
      in if length body < 19 \<or> body ! 10 \<noteq> CHR ''T'' then NotISO
         else (case (parse_date (take 10 body), parse_time (take 8 (drop 11 body)),
                     parse_fraction (drop 19 body)) of
                 (Some d, Some (h, mi, sec), Some us) \<Rightarrow>
                   if aware then Aware
                   else Naive \<lparr>day_ordinal = d, hour = h, minute = mi, second = sec,
                               microsecond = us\<rparr>
               | _ \<Rightarrow> NotISO))"

definition ascii_lib :: pylib where
  "ascii_lib =
     \<lparr>str_lower = map ascii_lower,
      str_upper = map ascii_upper,
      str_title = title_from False,
      int_of_str = decimal_literal,
      str_other = (\<lambda>v. undefined),
      fromisoformat = parse_iso,
      dt_isoformat = iso_datetime,
      date_isoformat = iso_date\<rparr>"

section \<open>Example inputs\<close>

text \<open>Wednesday 2024-05-08, 09:05:00; the week began on Monday 2024-05-06.\<close>

definition wednesday :: datetime where
  "wednesday = \<lparr>day_ordinal = 739014, hour = 9, minute = 5, second = 0, microsecond = 0\<rparr>"

definition example_clock :: "nat \<Rightarrow> datetime" where
  "example_clock k = wednesday\<lparr>second := k\<rparr>"

definition snapshot :: "string \<Rightarrow> json" where
  "snapshot ts = JObj [(''city'', JStr ''Riyadh''), (''temperature'', JStr ''31''), (''timestamp'', JStr ts)]"

definition example_entries :: "json list" where
  "example_entries =
     [snapshot ''2024-05-05T23:59:59'',
      snapshot ''2024-05-06T00:00:00'',
      JObj [(''city'', JStr ''Riyadh'')],
      snapshot ''yesterday'',
      snapshot ''2024-05-08T09:00:00'']"

definition example_history :: "(string \<times> json) list" where
  "example_history = [(''jeddah'', JArr []), (''riyadh'', JArr example_entries)]"

definition example_files :: filesystem where
  "example_files =
     (snd (new_storage ''data'' Map.empty))(''data/weather_history.json'' \<mapsto> Doc (JObj example_history))"

text \<open>An answer of the fallback provider with the given wind speed and bearing.\<close>

definition owm_document :: "json \<Rightarrow> json \<Rightarrow> json" where
  "owm_document speed deg =
     JObj [(''coord'', JObj [(''lon'', JFloat (Finite (187 / 4))), (''lat'', JFloat (Finite (99 / 4)))]),
           (''weather'', JArr [JObj [(''id'', JInt 800), (''description'', JStr ''clear sky'')]]),
           (''main'', JObj [(''temp'', JFloat (Finite (63 / 2))), (''feels_like'', JFloat (Finite (119 / 4))),
                           (''pressure'', JInt 1009), (''humidity'', JInt 17)]),
           (''visibility'', JInt 10000),
           (''wind'', JObj [(''speed'', speed), (''deg'', deg)]),
           (''sys'', JObj [(''country'', JStr ''SA'')]),
           (''name'', JStr ''Riyadh'')]"

text \<open>The primary provider is down; the fallback answers with the given document.\<close>

definition fallback_net :: "json \<Rightarrow> nat \<Rightarrow> http_result" where
  "fallback_net doc k =
     (if k = 0 then Raises ''connection refused'' else Response 200 (Decoded doc))"

definition all_down :: "nat \<Rightarrow> http_result" where
  "all_down k = Raises ''connection refused''"

definition weather_field :: "string \<Rightarrow> exn + json \<Rightarrow> exn + json" where
  "weather_field k r = bnd r (\<lambda>weather_data. subscript_key weather_data k)"



text \<open>A multi-day document of the primary provider with the given daily blocks.\<close>

definition hourly_block :: "string \<Rightarrow> json" where
  "hourly_block t =
     JObj [(''time'', JStr t), (''tempC'', JStr ''33''), (''FeelsLikeC'', JStr ''32''),
           (''weatherDesc'', JArr [JObj [(''value'', JStr ''Sunny'')]]),
           (''precipMM'', JStr ''0.0''), (''humidity'', JStr ''12''),
           (''windspeedKmph'', JStr ''10''), (''chanceofrain'', JStr ''0'')]"

definition daily_block :: "string \<Rightarrow> json" where
  "daily_block date =
     JObj [(''date'', JStr date), (''maxtempC'', JStr ''39''), (''mintempC'', JStr ''27''),
           (''avgtempC'', JStr ''33''), (''totalSnow_cm'', JStr ''0.0''), (''sunHour'', JStr ''13.0''),
           (''uvIndex'', JStr ''9''),
           (''astronomy'', JArr [JObj [(''sunrise'', JStr ''05:14 AM''), (''sunset'', JStr ''06:25 PM''),
                                      (''moonrise'', JStr ''05:12 AM''), (''moonset'', JStr ''06:49 PM''),
                                      (''moon_phase'', JStr ''New Moon'')]]),
           (''hourly'', JArr (map hourly_block [''0'', ''300'', ''600'', ''900'', ''1200'', ''1500'',
                                               ''1800'', ''2100'']))]"

definition wttr_answer :: "json list \<Rightarrow> http_result" where
  "wttr_answer blocks = Response 200 (Decoded (JObj [(''weather'', JArr blocks)]))"

text \<open>Answers of the geocoding service, and calls of the resolver one after the other.\<close>

definition nominatim_result :: "string \<Rightarrow> string \<Rightarrow> string \<Rightarrow> json" where
  "nominatim_result city country code =
     JObj [(''name'', JStr city),
           (''address'', JObj [(''city'', JStr city), (''country'', JStr country),
                              (''country_code'', JStr code)])]"

definition paris_answer :: http_result where
  "paris_answer =
     Response 200 (Decoded (JArr [nominatim_result ''Paris'' ''France'' ''fr'',
                                  nominatim_result ''Paris'' ''France'' ''fr'',
                                  nominatim_result ''Paris'' ''United States'' ''us'']))"

definition server_error :: http_result where
  "server_error = Response 500 (NotJSON True ''Expecting value'')"

definition noon :: world where
  "noon = \<lparr>wall_clock = 43200, requests_sent = []\<rparr>"

definition then_search ::
  "pylib \<Rightarrow> string \<Rightarrow> int \<Rightarrow> http_result \<Rightarrow> rat \<Rightarrow> json list \<times> autocomplete \<times> world
     \<Rightarrow> json list \<times> autocomplete \<times> world" where
  "then_search L query limit answer latency before =
     search_cities L query limit answer latency (fst (snd before)) (snd (snd before))"

section \<open>Sequencing\<close>

lemma bnd_Inl [simp]: "bnd (Inl e) f = Inl e" by (simp add: bnd_def)
lemma bnd_Inr [simp]: "bnd (Inr x) f = f x" by (simp add: bnd_def)
lemma bnd_eq_Inr: "bnd m f = Inr y \<longleftrightarrow> (\<exists>x. m = Inr x \<and> f x = Inr y)"
  by (cases m) simp_all
lemma bnd_eq_Inl: "bnd m f = Inl e \<longleftrightarrow> m = Inl e \<or> (\<exists>x. m = Inr x \<and> f x = Inl e)"
  by (cases m) simp_all


section \<open>Properties of the local store\<close>

subsection \<open>The week filter\<close>

lemma in_current_week_True:
  "in_current_week L sow entry = Inr True \<Longrightarrow>
     \<exists>s ts. subscript_key entry ''timestamp'' = Inr (JStr s) \<and> fromisoformat L s = Naive ts \<and> dt_ge ts sow"
proof -
  assume a: "in_current_week L sow entry = Inr True"
  then obtain t where t: "subscript_key entry ''timestamp'' = Inr t"
    by (auto simp: in_current_week_def bnd_eq_Inr)
  with a obtain s where s: "t = JStr s"
    by (cases t) (simp_all add: in_current_week_def)
  with a t obtain ts where "fromisoformat L s = Naive ts" "dt_ge ts sow"
    by (cases "fromisoformat L s") (simp_all add: in_current_week_def)
  with t s show ?thesis by blast
qed

lemma filter_loop_kept:
  "filter_loop L sow xs = Inr res \<Longrightarrow> entry \<in> set res \<Longrightarrow>
     entry \<in> set xs \<and> in_current_week L sow entry = Inr True"
proof (induction xs arbitrary: res)
  case Nil
  then show ?case by simp
next
  case (Cons x xs)
  show ?case
  proof (cases "in_current_week L sow x")
    case (Inr keep)
    with Cons.prems obtain filtered where f: "filter_loop L sow xs = Inr filtered"
      and r: "res = (if keep then x # filtered else filtered)"
      by (auto simp: bnd_eq_Inr)
    show ?thesis
    proof (cases "entry = x \<and> keep")
      case True
      with Inr show ?thesis by simp
    next
      case False
      with r Cons.prems(2) have "entry \<in> set filtered" by (auto split: if_splits)
      with Cons.IH [OF f] show ?thesis by simp
    qed
  next
    case (Inl e)
    with Cons.prems(1) have "filter_loop L sow xs = Inr res"
      by (cases e) simp_all
    with Cons.IH Cons.prems(2) show ?thesis by simp
  qed
qed

lemma weekday_start_of_week: "weekday (start_of_week now) = 0"
  unfolding weekday_def start_of_week_def by simp presburger

lemma start_of_week_le: "dt_ge now (start_of_week now)"
  by (simp add: dt_ge_def dt_key_def start_of_week_def)

lemma start_of_week_recent: "day_ordinal now - day_ordinal (start_of_week now) < 7 \<and> day_ordinal (start_of_week now) \<le> day_ordinal now"
  unfolding weekday_def start_of_week_def by simp


text \<open>
  C7. Whatever the weather-history file holds, every entry of a sequence that
  \<open>get_weather_history\<close> returns carries a timestamp that parses to a naive datetime at or
  after the start of the week computed from the clock; that start is a Monday, at
  00:00:00.000000, not after the reading of the clock and less than seven days before
  its date: the most recent Monday midnight.
\<close>

theorem weather_history_current_week: 
  "weekday (start_of_week now) = 0
   \<and> hour (start_of_week now) = 0 \<and> minute (start_of_week now) = 0
   \<and> second (start_of_week now) = 0 \<and> microsecond (start_of_week now) = 0
   \<and> dt_ge now (start_of_week now)
   \<and> day_ordinal now - day_ordinal (start_of_week now) < 7
   \<and> (\<forall>res. fst (get_weather_history L now self city fs) = Inr res \<longrightarrow>
        (\<forall>entry \<in> set res. \<exists>s ts.
            subscript_key entry ''timestamp'' = Inr (JStr s)
          \<and> fromisoformat L s = Naive ts
          \<and> dt_ge ts (start_of_week now)))"
proof -
  have "\<exists>s ts. subscript_key entry ''timestamp'' = Inr (JStr s) \<and> fromisoformat L s = Naive ts
          \<and> dt_ge ts (start_of_week now)"
    if r: "fst (get_weather_history L now self city fs) = Inr res" and e: "entry \<in> set res"
    for res entry
  proof -
    from r e obtain xs where "filter_loop L (start_of_week now) xs = Inr res"
      by (auto simp: get_weather_history_def Let_def bnd_eq_Inr filter_current_week_def
            split: if_splits)
    from filter_loop_kept [OF this e] in_current_week_True show ?thesis by blast
  qed
  moreover have "hour (start_of_week now) = 0 \<and> minute (start_of_week now) = 0
   \<and> second (start_of_week now) = 0 \<and> microsecond (start_of_week now) = 0"
    by (simp add: start_of_week_def)
  ultimately show ?thesis
    using weekday_start_of_week start_of_week_le start_of_week_recent by blast
qed


theorem weather_history_current_week_witness:
  "fst (get_weather_history ascii_lib wednesday (fst (new_storage ''data'' Map.empty)) ''Riyadh''
          example_files)
     = Inr [snapshot ''2024-05-06T00:00:00'', snapshot ''2024-05-08T09:00:00'']
   \<and> (\<exists>s ts. subscript_key (snapshot ''2024-05-06T00:00:00'') ''timestamp'' = Inr (JStr s)
          \<and> fromisoformat ascii_lib s = Naive ts
          \<and> dt_ge ts (start_of_week wednesday))"
proof -
  let ?res = "[snapshot ''2024-05-06T00:00:00'', snapshot ''2024-05-08T09:00:00'']"
  have r: "fst (get_weather_history ascii_lib wednesday (fst (new_storage ''data'' Map.empty))
              ''Riyadh'' example_files) = Inr ?res"
    by code_simp
  have "\<forall>entry \<in> set ?res. \<exists>s ts.
            subscript_key entry ''timestamp'' = Inr (JStr s)
          \<and> fromisoformat ascii_lib s = Naive ts
          \<and> dt_ge ts (start_of_week wednesday)"
    using weather_history_current_week [where L = ascii_lib and now = wednesday
        and self = "fst (new_storage ''data'' Map.empty)" and city = "''Riyadh''"
        and fs = example_files] r
    by blast
  then show ?thesis using r by simp
qed

text \<open>
  C10. \<open>get_weather_history\<close> leaves every file as it was. When the history file holds an
  object with a list for the city, the call returns the week filter of that list, and the
  file still holds the whole list, the entries of earlier weeks included.
\<close>

theorem weather_history_read_only:
  "snd (get_weather_history L now self city fs) = fs
   \<and> (\<forall>h es. fs (history_file self) = Some (Doc (JObj h))
         \<and> map_of h (str_lower L city) = Some (JArr es) \<longrightarrow>
       fst (get_weather_history L now self city fs) = filter_loop L (start_of_week now) es
       \<and> snd (get_weather_history L now self city fs) (history_file self) = Some (Doc (JObj h)))"
proof -
  have "fst (get_weather_history L now self city fs) = filter_loop L (start_of_week now) es"
    if "fs (history_file self) = Some (Doc (JObj h))" "map_of h (str_lower L city) = Some (JArr es)"
    for h es
  proof -
    from that(2) have "str_lower L city \<in> fst ` set h"
      by (metis domI dom_map_of_conv_image_fst)
    with that show ?thesis
    by (simp add: get_weather_history_def read_json_def filter_current_week_def)
  qed
  then show ?thesis by (simp add: get_weather_history_def Let_def)
qed

theorem weather_history_read_only_witness:
  "example_files (history_file (fst (new_storage ''data'' Map.empty))) = Some (Doc (JObj example_history))
   \<and> map_of example_history (str_lower ascii_lib ''Riyadh'') = Some (JArr example_entries)
   \<and> fst (get_weather_history ascii_lib wednesday (fst (new_storage ''data'' Map.empty)) ''Riyadh''
            example_files)
       = Inr [snapshot ''2024-05-06T00:00:00'', snapshot ''2024-05-08T09:00:00'']
   \<and> snd (get_weather_history ascii_lib wednesday (fst (new_storage ''data'' Map.empty)) ''Riyadh''
            example_files) (history_file (fst (new_storage ''data'' Map.empty)))
       = Some (Doc (JObj example_history))"
proof -
  have f: "example_files (history_file (fst (new_storage ''data'' Map.empty)))
             = Some (Doc (JObj example_history))"
    by code_simp
  have m: "map_of example_history (str_lower ascii_lib ''Riyadh'') = Some (JArr example_entries)"
    by code_simp
  have k: "filter_loop ascii_lib (start_of_week wednesday) example_entries
             = Inr [snapshot ''2024-05-06T00:00:00'', snapshot ''2024-05-08T09:00:00'']"
    by code_simp
  from weather_history_read_only [where L = ascii_lib and now = wednesday
        and self = "fst (new_storage ''data'' Map.empty)" and city = "''Riyadh''"
        and fs = example_files] f m k
  show ?thesis by metis
qed

subsection \<open>Search history\<close>

lemma without_city_entries:
  "without_city L city (map (search_entry L) es) =
     Inr (map (search_entry L) (filter (\<lambda>d. str_lower L (fst d) \<noteq> str_lower L city) es))"
  by (induction es) (simp_all add: search_entry_def)

lemma add_search_entries:
  assumes "fs (search_file self) = Some (Doc (JArr (map (search_entry L) es)))"
  shows "add_search L now self city fs =
     (Inr (), fs(search_file self \<mapsto> Doc (JArr (map (search_entry L)
        (take 20 ((city, now) # filter (\<lambda>d. str_lower L (fst d) \<noteq> str_lower L city) es))))))"
  using assms
  by (simp add: add_search_def read_json_def without_city_entries write_json_def take_map)

lemma distinct_newest_first: "distinct (map (\<lambda>d. str_lower L (fst d)) (newest_first L cs))"
  by (induction cs) (auto simp: distinct_map_filter)

lemma subseq_newest_first: "subseq (newest_first L cs) cs"
proof (induction cs)
  case Nil
  then show ?case by simp
next
  case (Cons c cs)
  have "subseq (filter (\<lambda>d. str_lower L (fst d) \<noteq> str_lower L (fst c)) (newest_first L cs)) (newest_first L cs)"
    by simp
  with Cons.IH have "subseq (filter (\<lambda>d. str_lower L (fst d) \<noteq> str_lower L (fst c)) (newest_first L cs)) cs"
    using subseq_order.order_trans by blast
  then show ?case by simp
qed

lemma take_filter_take:
  "distinct (map key N) \<Longrightarrow>
     take n (filter (\<lambda>d. key d \<noteq> k) (take (Suc n) N)) = take n (filter (\<lambda>d. key d \<noteq> k) N)"
proof (induction N arbitrary: n)
  case Nil
  then show ?case by simp
next
  case (Cons x xs)
  show ?case
  proof (cases n)
    case 0
    then show ?thesis by simp
  next
    case (Suc m)
    show ?thesis
    proof (cases "key x = k")
      case True
      from Cons.prems have "key x \<notin> key ` set xs" by simp
      with True have all: "\<forall>y \<in> set xs. key y \<noteq> k" by (metis imageI)
      then have "filter (\<lambda>d. key d \<noteq> k) xs = xs" by simp
      moreover from all have "filter (\<lambda>d. key d \<noteq> k) (take (Suc m) xs) = take (Suc m) xs"
        by (metis (mono_tags, lifting) filter_True in_set_takeD)
      ultimately show ?thesis using True Suc by simp
    next
      case False
      from Cons.prems have "distinct (map key xs)" by simp
      from Cons.IH [OF this, of m] False Suc show ?thesis by simp
    qed
  qed
qed

lemma newest_first_step:
  "take 20 (c # filter (\<lambda>d. str_lower L (fst d) \<noteq> str_lower L (fst c)) (take 20 (newest_first L cs)))
     = take 20 (newest_first L (c # cs))"
proof -
  have "take 19 (filter (\<lambda>d. str_lower L (fst d) \<noteq> str_lower L (fst c)) (take (Suc 19) (newest_first L cs)))
      = take 19 (filter (\<lambda>d. str_lower L (fst d) \<noteq> str_lower L (fst c)) (newest_first L cs))"
    by (rule take_filter_take [OF distinct_newest_first])
  then show ?thesis by (simp add: take_Cons')
qed

lemma record_searches_entries:
  assumes "fs (search_file self) = Some (Doc (JArr (map (search_entry L) (take 20 (newest_first L (rev past))))))"
  shows "\<exists>fs'. record_searches L self calls fs = (Inr (), fs')
     \<and> fs' (search_file self) = Some (Doc (JArr (map (search_entry L) (take 20 (newest_first L (rev (past @ calls)))))))"
  using assms
proof (induction calls arbitrary: fs past)
  case Nil
  then show ?case by simp
next
  case (Cons c calls)
  let ?es1 = "take 20 (newest_first L (rev (past @ [c])))"
  let ?fs1 = "fs(search_file self \<mapsto> Doc (JArr (map (search_entry L) ?es1)))"
  have e: "take 20 (c # filter (\<lambda>d. str_lower L (fst d) \<noteq> str_lower L (fst c))
             (take 20 (newest_first L (rev past)))) = ?es1"
    by (simp only: rev_append rev.simps append.simps newest_first_step)
  have "add_search L (snd c) self (fst c) fs =
     (Inr (), fs(search_file self \<mapsto> Doc (JArr (map (search_entry L)
        (take 20 ((fst c, snd c) # filter (\<lambda>d. str_lower L (fst d) \<noteq> str_lower L (fst c))
           (take 20 (newest_first L (rev past)))))))))"
    by (rule add_search_entries) (rule Cons.prems)
  then have step: "add_search L (snd c) self (fst c) fs = (Inr (), ?fs1)"
    by (simp only: prod.collapse e)
  have "?fs1 (search_file self) = Some (Doc (JArr (map (search_entry L) ?es1)))"
    by simp
  from Cons.IH [where fs = ?fs1 and past = "past @ [c]", OF this]
  obtain fs' where r: "record_searches L self calls ?fs1 = (Inr (), fs')"
    and f: "fs' (search_file self) =
       Some (Doc (JArr (map (search_entry L) (take 20 (newest_first L (rev ((past @ [c]) @ calls)))))))"
    by blast
  from r step have "record_searches L self (c # calls) fs = (Inr (), fs')"
    by (simp only: record_searches.simps prod.case sum.case)
  moreover from f have "fs' (search_file self) =
       Some (Doc (JArr (map (search_entry L) (take 20 (newest_first L (rev (past @ c # calls)))))))"
    by (simp only: append_assoc append.simps)
  ultimately show ?case by blast
qed

lemma new_storage_search:
  "snd (new_storage dir Map.empty) (search_file (fst (new_storage dir Map.empty))) = Some (Doc (JArr []))"
  by (simp add: new_storage_def Let_def write_json_def path_join_def)

lemma city_names_entries: "city_names (map (search_entry L) es) = Inr (map (\<lambda>c. JStr (fst c)) es)"
  by (induction es) (simp_all add: search_entry_def)


text \<open>
  C6. After any sequence of \<open>add_search\<close> calls on a fresh store, none of the calls has
  raised and the search file holds the entries of \<open>stored\<close>: the 20 most recent searches,
  newest first, one per city name up to case (the latest search of a name is the one
  kept). So it holds at most 20 entries, no two with the same lower-cased name, in the
  order of the calls reversed, the last call first. \<open>Paris\<close> followed by \<open>paris\<close> leaves
  the one entry of the second call.
\<close>

theorem search_history_newest_first:
  "\<exists>fs' stored.
      record_searches L (fst (new_storage dir Map.empty)) calls (snd (new_storage dir Map.empty)) = (Inr (), fs')
    \<and> fs' (search_file (fst (new_storage dir Map.empty))) = Some (Doc (JArr (map (search_entry L) stored)))
    \<and> get_search_history (fst (new_storage dir Map.empty)) fs' = (Inr (map (\<lambda>c. JStr (fst c)) stored), fs')
    \<and> stored = take 20 (newest_first L (rev calls))
    \<and> length stored \<le> 20
    \<and> distinct (map (\<lambda>c. str_lower L (fst c)) stored)
    \<and> subseq stored (rev calls)
    \<and> (calls \<noteq> [] \<longrightarrow> hd stored = last calls)
    \<and> (calls = [(''Paris'', t1), (''paris'', t2)] \<and> str_lower L ''Paris'' = str_lower L ''paris''
          \<longrightarrow> stored = [(''paris'', t2)])"
proof -
  let ?self = "fst (new_storage dir Map.empty)" and ?fs0 = "snd (new_storage dir Map.empty)"
  let ?stored = "take 20 (newest_first L (rev calls))"
  have "?fs0 (search_file ?self) = Some (Doc (JArr (map (search_entry L) (take 20 (newest_first L (rev []))))))"
    using new_storage_search by simp
  with record_searches_entries [where fs = ?fs0 and self = ?self and L = L and past = "[]"
      and calls = calls]
  obtain fs' where run: "record_searches L ?self calls ?fs0 = (Inr (), fs')"
    and filed: "fs' (search_file ?self) = Some (Doc (JArr (map (search_entry L) ?stored)))"
    by auto
  have hist: "get_search_history ?self fs' = (Inr (map (\<lambda>c. JStr (fst c)) ?stored), fs')"
    using filed by (simp add: get_search_history_def read_json_def city_names_entries)
  have d: "distinct (map (\<lambda>c. str_lower L (fst c)) ?stored)"
    using distinct_newest_first [of L "rev calls"] by (simp add: take_map [symmetric] distinct_take del: take_map)
  have "subseq ?stored (newest_first L (rev calls))"
    by (metis append_take_drop_id list_emb_append_mono subseq_order.order_refl list_emb_Nil append_Nil2)
  then have s: "subseq ?stored (rev calls)"
    using subseq_newest_first subseq_order.order_trans by blast
  have h: "calls \<noteq> [] \<longrightarrow> hd ?stored = last calls"
    by (cases calls rule: rev_cases) simp_all
  have p: "calls = [(''Paris'', t1), (''paris'', t2)] \<and> str_lower L ''Paris'' = str_lower L ''paris''
          \<longrightarrow> ?stored = [(''paris'', t2)]"
    by simp
  from run filed hist d s h p show ?thesis by simp
qed

theorem search_history_newest_first_witness:
  "\<exists>fs'. record_searches ascii_lib (fst (new_storage ''data'' Map.empty))
            [(''Paris'', wednesday), (''paris'', example_clock 30)]
            (snd (new_storage ''data'' Map.empty)) = (Inr (), fs')
     \<and> fs' (search_file (fst (new_storage ''data'' Map.empty)))
         = Some (Doc (JArr [search_entry ascii_lib (''paris'', example_clock 30)]))"
proof -
  let ?calls = "[(''Paris'', wednesday), (''paris'', example_clock 30)]"
  have l: "str_lower ascii_lib ''Paris'' = str_lower ascii_lib ''paris''"
    by code_simp
  obtain fs' stored where
    run: "record_searches ascii_lib (fst (new_storage ''data'' Map.empty)) ?calls
            (snd (new_storage ''data'' Map.empty)) = (Inr (), fs')"
    and held: "fs' (search_file (fst (new_storage ''data'' Map.empty)))
         = Some (Doc (JArr (map (search_entry ascii_lib) stored)))"
    and paris: "?calls = [(''Paris'', wednesday), (''paris'', example_clock 30)]
          \<and> str_lower ascii_lib ''Paris'' = str_lower ascii_lib ''paris''
          \<longrightarrow> stored = [(''paris'', example_clock 30)]"
    using search_history_newest_first [where L = ascii_lib and dir = "''data''"
      and calls = ?calls and ?t1.0 = wednesday and ?t2.0 = "example_clock 30"]
    by blast
  from paris l have "stored = [(''paris'', example_clock 30)]"
    by blast
  with held have "fs' (search_file (fst (new_storage ''data'' Map.empty)))
         = Some (Doc (JArr [search_entry ascii_lib (''paris'', example_clock 30)]))"
    by (simp only: list.map)
  with run show ?thesis
    by (intro exI [of _ fs'] conjI) assumption+
qed

section \<open>Properties of the weather source adapter\<close>

subsection \<open>Both sources fail\<close>

text \<open>
  C1. When the request to the primary provider raises \<open>e\<close>, \<open>get_current_weather\<close>
  returns no weather: with no API key configured it raises an exception whose message
  says so and gives the reason \<open>e\<close>; with a key, when the fallback raises too, it raises
  an exception whose message names both sources, each with its reason.
\<close>

theorem current_weather_source_unavailable:
  assumes "wttr_current L now city (net 0) = Inl e"
  shows "(\<not> key_configured owm_api_key \<longrightarrow>
            get_current_weather L now owm_api_key city net =
              Inl (Exception (''wttr.in failed and no OpenWeatherMap API key configured: ''
                              @ str_exn e)))
       \<and> (\<forall>owm_error. key_configured owm_api_key
              \<and> get_weather_from_owm L now city (net 1) = Inl owm_error \<longrightarrow>
            get_current_weather L now owm_api_key city net =
              Inl (Exception (''Both sources failed - wttr.in: '' @ str_exn e
                              @ '', OpenWeatherMap: '' @ str_exn owm_error)))"
  using assms by (simp add: get_current_weather_def)

theorem current_weather_source_unavailable_witness:
  "wttr_current ascii_lib wednesday ''Riyadh'' (all_down 0) = Inl (RequestException ''connection refused'')
   \<and> get_current_weather ascii_lib wednesday None ''Riyadh'' all_down =
       Inl (Exception ''wttr.in failed and no OpenWeatherMap API key configured: connection refused'')
   \<and> get_weather_from_owm ascii_lib wednesday ''Riyadh'' (all_down 1) = Inl (RequestException ''connection refused'')
   \<and> get_current_weather ascii_lib wednesday (Some ''key'') ''Riyadh'' all_down =
       Inl (Exception ''Both sources failed - wttr.in: connection refused, OpenWeatherMap: connection refused'')"
proof -
  have p: "wttr_current ascii_lib wednesday ''Riyadh'' (all_down 0) = Inl (RequestException ''connection refused'')"
    by (simp add: wttr_current_def all_down_def)
  have f: "get_weather_from_owm ascii_lib wednesday ''Riyadh'' (all_down 1) = Inl (RequestException ''connection refused'')"
    by (simp add: get_weather_from_owm_def all_down_def)
  have k0: "\<not> key_configured None" and k1: "key_configured (Some ''key'')"
    by (simp_all add: key_configured_def)
  from current_weather_source_unavailable [where L = ascii_lib and now = wednesday and city = "''Riyadh''" and net = all_down
      and e = "RequestException ''connection refused''" and owm_api_key = None] p k0
  have a: "get_current_weather ascii_lib wednesday None ''Riyadh'' all_down =
       Inl (Exception ''wttr.in failed and no OpenWeatherMap API key configured: connection refused'')"
    by simp
  from current_weather_source_unavailable [where L = ascii_lib and now = wednesday and city = "''Riyadh''" and net = all_down
      and e = "RequestException ''connection refused''" and owm_api_key = "Some ''key''"] p k1 f
  have b: "get_current_weather ascii_lib wednesday (Some ''key'') ''Riyadh'' all_down =
       Inl (Exception ''Both sources failed - wttr.in: connection refused, OpenWeatherMap: connection refused'')"
    by simp
  from p f a b show ?thesis by (intro conjI)
qed

subsection \<open>The mapping of the fallback provider's answer\<close>

lemma requests_get_Inr: "requests_get answer = Inr r \<longleftrightarrow> answer = Response (fst r) (snd r)"
  by (cases answer; cases r) auto

lemma response_json_Inr: "response_json r = Inr data \<longleftrightarrow> snd r = Decoded data"
  by (cases r; cases "snd r") auto

lemma fallback_path:
  assumes "wttr_current L now city (net 0) = Inl e"
    and "get_current_weather L now owm_api_key city net = Inr w"
  shows "key_configured owm_api_key \<and> get_weather_from_owm L now city (net 1) = Inr w"
  using assms by (auto simp: get_current_weather_def split: if_splits sum.splits)

lemma float_3_6_nearest: "double (18 / 5) = Finite float_3_6"
  by code_simp

lemma five_times_3_6: "float_times (Finite 5) float_3_6 = Finite 18"
  by code_simp

lemma str_int_18: "str_int 18 = ''18''"
  by code_simp

lemma py_mul_float_Inr:
  "py_mul_float v c = Inr y \<longleftrightarrow> (\<exists>x. as_float ''*'' v = Inr x \<and> y = float_times x c)"
  by (auto simp: py_mul_float_def bnd_eq_Inr)

lemma degrees_to_direction_Inr:
  "degrees_to_direction v = Inr s \<longleftrightarrow>
     (\<exists>x index. as_float ''+'' v = Inr x
        \<and> float_to_int (float_over (float_plus x (45 / 4)) (45 / 2)) = Inr index
        \<and> s = directions ! nat (index mod 16))"
  by (auto simp: degrees_to_direction_def py_add_float_def bnd_eq_Inr)

lemma owm_wind:
  assumes "get_weather_from_owm L now city answer = Inr w"
  shows "\<exists>code data speed x kmh wind deg y index.
           answer = Response code (Decoded data)
         \<and> subscript2 data ''wind'' ''speed'' = Inr speed \<and> as_float ''*'' speed = Inr x
         \<and> float_to_int (float_times x float_3_6) = Inr kmh
         \<and> subscript_key w ''wind_speed'' = Inr (JStr (str_int kmh))
         \<and> subscript_key data ''wind'' = Inr wind \<and> dict_get wind ''deg'' (JInt 0) = Inr deg
         \<and> as_float ''+'' deg = Inr y
         \<and> float_to_int (float_over (float_plus y (45 / 4)) (45 / 2)) = Inr index
         \<and> subscript_key w ''wind_direction'' = Inr (JStr (directions ! nat (index mod 16)))"
proof -
  from assms obtain response data kmh wind_direction where
    a: "requests_get answer = Inr response" and j: "response_json response = Inr data"
    and s: "bnd (bnd (subscript2 data ''wind'' ''speed'') (\<lambda>v. py_mul_float v float_3_6))
              float_to_int = Inr kmh"
    and d: "bnd (bnd (subscript_key data ''wind'') (\<lambda>w. dict_get w ''deg'' (JInt 0)))
              degrees_to_direction = Inr wind_direction"
    and ws: "subscript_key w ''wind_speed'' = Inr (JStr (str_int kmh))"
    and wd: "subscript_key w ''wind_direction'' = Inr (JStr wind_direction)"
    unfolding get_weather_from_owm_def bnd_eq_Inr by fastforce
  from a j have "answer = Response (fst response) (Decoded data)"
    by (simp add: requests_get_Inr response_json_Inr)
  moreover from s obtain speed x where "subscript2 data ''wind'' ''speed'' = Inr speed"
    "as_float ''*'' speed = Inr x" "float_to_int (float_times x float_3_6) = Inr kmh"
    by (auto simp: bnd_eq_Inr py_mul_float_Inr)
  moreover from d obtain wind deg y index where "subscript_key data ''wind'' = Inr wind"
    "dict_get wind ''deg'' (JInt 0) = Inr deg" "as_float ''+'' deg = Inr y"
    "float_to_int (float_over (float_plus y (45 / 4)) (45 / 2)) = Inr index"
    "wind_direction = directions ! nat (index mod 16)"
    by (auto simp: bnd_eq_Inr degrees_to_direction_Inr)
  ultimately show ?thesis using ws wd by blast
qed

lemma floor_eq_round: "\<lfloor>x::rat\<rfloor> = round x \<longleftrightarrow> frac x < 1 / 2"
proof -
  have h: "\<lfloor>1 / 2 :: rat\<rfloor> = 0" by (rule floor_unique) simp_all
  then have f: "frac (1 / 2 :: rat) = 1 / 2" by (simp add: frac_def)
  have "round x = (if frac x + 1 / 2 < 1 then \<lfloor>x\<rfloor> else \<lfloor>x\<rfloor> + 1)"
    unfolding round_def floor_add h f by simp
  then show ?thesis by auto
qed

text \<open>
  Rounding decides the result just below a boundary. The bearing 11.249999999999998 plus
  11.25 is the float 22.5, so the direction is \<open>NNE\<close>; the speed 0.8333333333333333
  times 3.6 is the float 3.0, so the speed in km/h is 3.
\<close>

lemma bearing_below_boundary:
  "double (11249999999999998 / 1000000000000000) = Finite (6333186975989759 / 562949953421312)
   \<and> float_plus (Finite (6333186975989759 / 562949953421312)) (45 / 4) = Finite (45 / 2)
   \<and> degrees_to_direction (JFloat (Finite (6333186975989759 / 562949953421312))) = Inr ''NNE''"
  by code_simp

lemma speed_below_boundary:
  "double (8333333333333333 / 10000000000000000) = Finite (3752999689475413 / 4503599627370496)
   \<and> float_times (Finite (3752999689475413 / 4503599627370496)) float_3_6 = Finite 3
   \<and> bnd (py_mul_float (JFloat (Finite (3752999689475413 / 4503599627370496))) float_3_6)
         float_to_int = Inr 3"
  by code_simp

text \<open>
  Two answers of the fallback provider, evaluated once: a wind of 1 m/s from 10 degrees,
  and a wind of 5.0 m/s from 100 degrees.
\<close>

lemma fallback_example_1_10:
  "bnd (get_current_weather ascii_lib wednesday (Some ''key'') ''Riyadh''
          (fallback_net (owm_document (JInt 1) (JInt 10))))
     (\<lambda>w. bnd (subscript_key w ''wind_speed'') (\<lambda>a.
          bnd (subscript_key w ''wind_direction'') (\<lambda>b. Inr (a, b))))
   = Inr (JStr ''3'', JStr ''N'')"
  by code_simp

lemma fallback_example_5_100:
  "bnd (get_current_weather ascii_lib wednesday (Some ''key'') ''Riyadh''
          (fallback_net (owm_document (JFloat (Finite 5)) (JInt 100))))
     (\<lambda>w. bnd (subscript_key w ''wind_speed'') (\<lambda>a.
          bnd (subscript_key w ''wind_direction'') (\<lambda>b. Inr (a, b))))
   = Inr (JStr ''18'', JStr ''E'')"
  by code_simp

lemma primary_down:
  "wttr_current ascii_lib wednesday ''Riyadh'' (fallback_net doc 0)
     = Inl (RequestException ''connection refused'')"
  by (simp add: wttr_current_def fallback_net_def)

lemma bearing_100:
  "as_float ''+'' (JInt 100) = Inr (Finite 100)
   \<and> float_over (float_plus (Finite 100) (45 / 4)) (45 / 2)
       = Finite (2783474769694265 / 562949953421312)
   \<and> \<lfloor>2783474769694265 / 562949953421312 :: rat\<rfloor> = 4"
  by code_simp

text \<open>
  C3 (as amended). On the fallback path the wind speed of the answer, taken as a float
  (an integer is converted), is multiplied by the float 3.6 in binary64 arithmetic, and
  the product is cut to its integer part by \<open>int\<close>, not rounded to the nearest integer;
  the field holds that integer in decimal. For a product \<open>p \<ge> 0\<close> this is the floor of
  \<open>p\<close>, which is the nearest integer exactly when the fractional part of \<open>p\<close> is below
  one half; for \<open>p < 0\<close> it is the ceiling. For the speed 5.0 the field is \<open>18\<close>.
\<close>

theorem fallback_wind_speed:
  assumes "wttr_current L now city (net 0) = Inl e"
    and "get_current_weather L now owm_api_key city net = Inr w"
  shows "\<exists>code data speed x kmh.
           net 1 = Response code (Decoded data)
         \<and> subscript2 data ''wind'' ''speed'' = Inr speed
         \<and> as_float ''*'' speed = Inr x
         \<and> float_to_int (float_times x float_3_6) = Inr kmh
         \<and> subscript_key w ''wind_speed'' = Inr (JStr (str_int kmh))
         \<and> (\<forall>p. float_times x float_3_6 = Finite p \<and> 0 \<le> p \<longrightarrow>
                kmh = \<lfloor>p\<rfloor> \<and> (kmh = round p \<longleftrightarrow> frac p < 1 / 2))
         \<and> (\<forall>p. float_times x float_3_6 = Finite p \<and> p < 0 \<longrightarrow> kmh = \<lceil>p\<rceil>)
         \<and> (speed = JFloat (Finite 5) \<longrightarrow> subscript_key w ''wind_speed'' = Inr (JStr ''18''))
         \<and> double (18 / 5) = Finite float_3_6"
proof -
  from fallback_path [OF assms] have "get_weather_from_owm L now city (net 1) = Inr w" ..
  from owm_wind [OF this] obtain code data speed x kmh where
    f: "net 1 = Response code (Decoded data)" "subscript2 data ''wind'' ''speed'' = Inr speed"
      "as_float ''*'' speed = Inr x" "float_to_int (float_times x float_3_6) = Inr kmh"
      "subscript_key w ''wind_speed'' = Inr (JStr (str_int kmh))"
    by blast
  have a: "\<forall>p. float_times x float_3_6 = Finite p \<and> 0 \<le> p \<longrightarrow>
                kmh = \<lfloor>p\<rfloor> \<and> (kmh = round p \<longleftrightarrow> frac p < 1 / 2)"
  proof (intro allI impI, elim conjE)
    fix p
    assume "float_times x float_3_6 = Finite p" "0 \<le> p"
    with f(4) have "kmh = \<lfloor>p\<rfloor>" by simp
    then show "kmh = \<lfloor>p\<rfloor> \<and> (kmh = round p \<longleftrightarrow> frac p < 1 / 2)"
      using floor_eq_round [of p] by simp
  qed
  have b: "\<forall>p. float_times x float_3_6 = Finite p \<and> p < 0 \<longrightarrow> kmh = \<lceil>p\<rceil>"
  proof (intro allI impI, elim conjE)
    fix p
    assume "float_times x float_3_6 = Finite p" "p < 0"
    with f(4) show "kmh = \<lceil>p\<rceil>" by simp
  qed
  have c: "speed = JFloat (Finite 5) \<longrightarrow> subscript_key w ''wind_speed'' = Inr (JStr ''18'')"
  proof
    assume "speed = JFloat (Finite 5)"
    with f(3) have "x = Finite 5" by simp
    with f(4) have "float_to_int (float_times (Finite 5) float_3_6) = Inr kmh"
      by (simp only:)
    then have "kmh = 18" unfolding five_times_3_6 by simp
    with f(5) show "subscript_key w ''wind_speed'' = Inr (JStr ''18'')"
      by (simp add: str_int_18)
  qed
  from f a b c float_3_6_nearest show ?thesis
    by (intro exI [of _ code] exI [of _ data] exI [of _ speed] exI [of _ x] exI [of _ kmh] conjI)
qed

theorem fallback_wind_speed_witness:
  "wttr_current ascii_lib wednesday ''Riyadh''
     (fallback_net (owm_document (JFloat (Finite 5)) (JInt 100)) 0)
     = Inl (RequestException ''connection refused'')
   \<and> (\<exists>w kmh. get_current_weather ascii_lib wednesday (Some ''key'') ''Riyadh''
              (fallback_net (owm_document (JFloat (Finite 5)) (JInt 100))) = Inr w
          \<and> float_to_int (float_times (Finite 5) float_3_6) = Inr kmh
          \<and> kmh = \<lfloor>18 :: rat\<rfloor>
          \<and> subscript_key w ''wind_speed'' = Inr (JStr ''18''))"
proof -
  let ?net = "fallback_net (owm_document (JFloat (Finite 5)) (JInt 100))"
  from fallback_example_5_100 obtain w where
    g: "get_current_weather ascii_lib wednesday (Some ''key'') ''Riyadh'' ?net = Inr w"
    unfolding bnd_eq_Inr by blast
  from fallback_wind_speed [where L = ascii_lib and now = wednesday and city = "''Riyadh''" and net = ?net
      and e = "RequestException ''connection refused''" and owm_api_key = "Some ''key''"
      and w = w] primary_down g
  obtain code data speed x kmh where n: "?net 1 = Response code (Decoded data)"
    and sp: "subscript2 data ''wind'' ''speed'' = Inr speed"
    and fl: "as_float ''*'' speed = Inr x"
    and km: "float_to_int (float_times x float_3_6) = Inr kmh"
    and cut: "\<forall>p. float_times x float_3_6 = Finite p \<and> 0 \<le> p \<longrightarrow>
                kmh = \<lfloor>p\<rfloor> \<and> (kmh = round p \<longleftrightarrow> frac p < 1 / 2)"
    and five: "speed = JFloat (Finite 5) \<longrightarrow> subscript_key w ''wind_speed'' = Inr (JStr ''18'')"
    by blast
  from n have "data = owm_document (JFloat (Finite 5)) (JInt 100)"
    by (simp add: fallback_net_def)
  with sp have s: "speed = JFloat (Finite 5)"
    by (simp add: owm_document_def subscript2_def)
  with fl have x: "x = Finite 5" by simp
  from s five have f: "subscript_key w ''wind_speed'' = Inr (JStr ''18'')" by blast
  from cut five_times_3_6 x have k: "kmh = \<lfloor>18 :: rat\<rfloor>" by simp
  from km x have "float_to_int (float_times (Finite 5) float_3_6) = Inr kmh" by (simp only:)
  with g k f primary_down show ?thesis by blast
qed

text \<open>
  The claim as stated fails for a wind speed of 1 m/s: the field is \<open>3\<close>, and 3.6 rounded
  to the nearest integer is 4.
\<close>

theorem wind_speed_not_rounded:
  "weather_field ''wind_speed''
     (get_current_weather ascii_lib wednesday (Some ''key'') ''Riyadh''
        (fallback_net (owm_document (JInt 1) (JInt 10))))
   \<noteq> Inr (JStr (str_int (round (1 * (18 / 5) :: rat))))"
proof -
  from fallback_example_1_10 have
    "weather_field ''wind_speed''
       (get_current_weather ascii_lib wednesday (Some ''key'') ''Riyadh''
          (fallback_net (owm_document (JInt 1) (JInt 10)))) = Inr (JStr ''3'')"
    unfolding weather_field_def bnd_eq_Inr by auto
  moreover have "str_int (round (1 * (18 / 5) :: rat)) = ''4''" by code_simp
  ultimately show ?thesis by simp
qed

text \<open>
  C2 (as amended). On the fallback path the wind direction is the entry of the table at
  index \<open>int((deg + 11.25) / 22.5) mod 16\<close>, where the sum and the quotient are those of
  binary64 arithmetic and \<open>int\<close> cuts the fractional part off (the floor of a quotient
  that is not negative, the ceiling of a negative one) instead of rounding to the nearest
  integer; \<open>deg\<close> is 0 when the answer gives none. The index is within the table.
\<close>

theorem fallback_wind_direction:
  assumes "wttr_current L now city (net 0) = Inl e"
    and "get_current_weather L now owm_api_key city net = Inr w"
  shows "\<exists>code data wind deg y index.
           net 1 = Response code (Decoded data)
         \<and> subscript_key data ''wind'' = Inr wind \<and> dict_get wind ''deg'' (JInt 0) = Inr deg
         \<and> as_float ''+'' deg = Inr y
         \<and> float_to_int (float_over (float_plus y (45 / 4)) (45 / 2)) = Inr index
         \<and> subscript_key w ''wind_direction'' = Inr (JStr (directions ! nat (index mod 16)))
         \<and> nat (index mod 16) < length directions
         \<and> (\<forall>q. float_over (float_plus y (45 / 4)) (45 / 2) = Finite q \<and> 0 \<le> q \<longrightarrow>
                index = \<lfloor>q\<rfloor>)
         \<and> (\<forall>q. float_over (float_plus y (45 / 4)) (45 / 2) = Finite q \<and> q < 0 \<longrightarrow>
                index = \<lceil>q\<rceil>)"
proof -
  from fallback_path [OF assms] have "get_weather_from_owm L now city (net 1) = Inr w" ..
  from owm_wind [OF this] obtain code data wind deg y index where
    f: "net 1 = Response code (Decoded data)" "subscript_key data ''wind'' = Inr wind"
      "dict_get wind ''deg'' (JInt 0) = Inr deg" "as_float ''+'' deg = Inr y"
      "float_to_int (float_over (float_plus y (45 / 4)) (45 / 2)) = Inr index"
      "subscript_key w ''wind_direction'' = Inr (JStr (directions ! nat (index mod 16)))"
    by blast
  have b: "nat (index mod 16) < length directions"
    by (simp add: directions_def nat_less_iff)
  have a: "\<forall>q. float_over (float_plus y (45 / 4)) (45 / 2) = Finite q \<and> 0 \<le> q \<longrightarrow>
                index = \<lfloor>q\<rfloor>"
  proof (intro allI impI, elim conjE)
    fix q
    assume "float_over (float_plus y (45 / 4)) (45 / 2) = Finite q" "0 \<le> q"
    with f(5) show "index = \<lfloor>q\<rfloor>" by simp
  qed
  have c: "\<forall>q. float_over (float_plus y (45 / 4)) (45 / 2) = Finite q \<and> q < 0 \<longrightarrow>
                index = \<lceil>q\<rceil>"
  proof (intro allI impI, elim conjE)
    fix q
    assume "float_over (float_plus y (45 / 4)) (45 / 2) = Finite q" "q < 0"
    with f(5) show "index = \<lceil>q\<rceil>" by simp
  qed
  from f a b c show ?thesis
    by (intro exI [of _ code] exI [of _ data] exI [of _ wind] exI [of _ deg] exI [of _ y]
          exI [of _ index] conjI)
qed

theorem fallback_wind_direction_witness:
  "wttr_current ascii_lib wednesday ''Riyadh''
     (fallback_net (owm_document (JFloat (Finite 5)) (JInt 100)) 0)
     = Inl (RequestException ''connection refused'')
   \<and> (\<exists>w index. get_current_weather ascii_lib wednesday (Some ''key'') ''Riyadh''
              (fallback_net (owm_document (JFloat (Finite 5)) (JInt 100))) = Inr w
          \<and> subscript_key w ''wind_direction'' = Inr (JStr (directions ! nat (index mod 16)))
          \<and> index = 4
          \<and> directions ! nat (index mod 16) = ''E'')"
proof -
  let ?net = "fallback_net (owm_document (JFloat (Finite 5)) (JInt 100))"
  from fallback_example_5_100 obtain w where
    g: "get_current_weather ascii_lib wednesday (Some ''key'') ''Riyadh'' ?net = Inr w"
    unfolding bnd_eq_Inr by blast
  from fallback_wind_direction [where L = ascii_lib and now = wednesday and city = "''Riyadh''" and net = ?net
      and e = "RequestException ''connection refused''" and owm_api_key = "Some ''key''"
      and w = w] primary_down g
  obtain code data wind deg y index where n: "?net 1 = Response code (Decoded data)"
    and wi: "subscript_key data ''wind'' = Inr wind"
    and dg: "dict_get wind ''deg'' (JInt 0) = Inr deg"
    and fl: "as_float ''+'' deg = Inr y"
    and i: "subscript_key w ''wind_direction'' = Inr (JStr (directions ! nat (index mod 16)))"
    and cut: "\<forall>q. float_over (float_plus y (45 / 4)) (45 / 2) = Finite q \<and> 0 \<le> q \<longrightarrow>
                index = \<lfloor>q\<rfloor>"
    by blast
  from n have "data = owm_document (JFloat (Finite 5)) (JInt 100)"
    by (simp add: fallback_net_def)
  with wi have "wind = JObj [(''speed'', JFloat (Finite 5)), (''deg'', JInt 100)]"
    by (simp add: owm_document_def)
  with dg have "deg = JInt 100" by simp
  with fl bearing_100 have y: "y = Finite 100" by (simp only:) simp
  from bearing_100 have q: "float_over (float_plus (Finite 100) (45 / 4)) (45 / 2)
       = Finite (2783474769694265 / 562949953421312)"
    and fq: "\<lfloor>2783474769694265 / 562949953421312 :: rat\<rfloor> = 4"
    by blast+
  from cut q have "index = \<lfloor>2783474769694265 / 562949953421312 :: rat\<rfloor>"
    unfolding y by simp
  with fq have four: "index = 4" by (simp only:)
  then have "directions ! nat (index mod 16) = ''E''" by (simp add: directions_def)
  with g i four primary_down show ?thesis by blast
qed

text \<open>
  The claim as stated fails for a bearing of 10 degrees: the direction reported is \<open>N\<close>,
  and the index \<open>round(21.25 / 22.5) = 1\<close> of the table is \<open>NNE\<close>.
\<close>

theorem wind_direction_not_rounded:
  "weather_field ''wind_direction''
     (get_current_weather ascii_lib wednesday (Some ''key'') ''Riyadh''
        (fallback_net (owm_document (JInt 1) (JInt 10))))
   \<noteq> Inr (JStr (directions ! nat (round ((10 + 45 / 4) / (45 / 2) :: rat) mod 16)))"
proof -
  from fallback_example_1_10 have
    "weather_field ''wind_direction''
       (get_current_weather ascii_lib wednesday (Some ''key'') ''Riyadh''
          (fallback_net (owm_document (JInt 1) (JInt 10)))) = Inr (JStr ''N'')"
    unfolding weather_field_def bnd_eq_Inr by auto
  moreover have "directions ! nat (round ((10 + 45 / 4) / (45 / 2) :: rat) mod 16) = ''NNE''"
    by code_simp
  ultimately show ?thesis by simp
qed

subsection \<open>Tomorrow's forecast\<close>

lemma raise_for_status_ok: "\<not> (400 \<le> fst r \<and> fst r < 600) \<Longrightarrow> raise_for_status r = Inr ()"
  by (simp add: raise_for_status_def)

lemma forecast_data_of_str: "forecast_data (JStr s) = Inl (TypeError ''string indices must be integers'')"
  by (simp add: forecast_data_def)

lemma second_block:
  assumes "subscript_idx blocks 1 = Inr tomorrow" "forecast_data tomorrow = Inr forecast"
  shows "\<exists>bs. blocks = JArr bs \<and> 2 \<le> length bs \<and> tomorrow = bs ! 1"
proof (cases blocks)
  case (JArr bs)
  with assms(1) show ?thesis by (auto split: if_splits)
next
  case (JStr s)
  with assms(1) obtain c where "tomorrow = JStr c" by (auto split: if_splits)
  with assms(2) show ?thesis by (simp add: forecast_data_of_str)
qed (use assms(1) in simp_all)

text \<open>
  C4. When the primary provider answers with a document whose \<open>weather\<close> entry has fewer
  than 2 elements, \<open>get_tomorrow_forecast\<close> raises the exception "Tomorrow's forecast not
  available"; and a forecast it returns is the dictionary built from the element at index
  1 of the \<open>weather\<close> list of the document, which has at least 2 elements.
\<close>

theorem tomorrow_forecast_second_block:
  "(\<forall>code data blocks n.
       answer = Response code (Decoded data) \<and> (code < 400 \<or> 600 \<le> code)
       \<and> subscript_key data ''weather'' = Inr blocks \<and> py_len blocks = Inr n \<and> n < 2 \<longrightarrow>
       get_tomorrow_forecast city answer = Inl (Exception ''Tomorrow's forecast not available''))
   \<and> (\<forall>forecast. get_tomorrow_forecast city answer = Inr forecast \<longrightarrow>
        (\<exists>code data blocks.
            answer = Response code (Decoded data)
          \<and> subscript_key data ''weather'' = Inr (JArr blocks)
          \<and> 2 \<le> length blocks
          \<and> forecast_data (blocks ! 1) = Inr forecast))"
proof -
  have a: "get_tomorrow_forecast city answer = Inl (Exception ''Tomorrow's forecast not available'')"
    if "answer = Response code (Decoded data)" "code < 400 \<or> 600 \<le> code"
      "subscript_key data ''weather'' = Inr blocks" "py_len blocks = Inr n" "n < 2"
    for code data blocks n
  proof -
    from that(2) have "raise_for_status (code, Decoded data) = Inr ()"
      by (auto simp: raise_for_status_def)
    with that have "forecast_attempt answer = Inl (Exception ''Tomorrow's forecast not available'')"
      by (simp add: forecast_attempt_def)
    then show ?thesis by (simp add: get_tomorrow_forecast_def)
  qed
  have b: "\<exists>code data blocks.
            answer = Response code (Decoded data)
          \<and> subscript_key data ''weather'' = Inr (JArr blocks)
          \<and> 2 \<le> length blocks
          \<and> forecast_data (blocks ! 1) = Inr forecast"
    if "get_tomorrow_forecast city answer = Inr forecast" for forecast
  proof -
    from that have "forecast_attempt answer = Inr forecast"
      by (simp add: get_tomorrow_forecast_def split: sum.splits)
    then obtain response data blocks tomorrow where r: "requests_get answer = Inr response"
      and j: "response_json response = Inr data"
      and w: "subscript_key data ''weather'' = Inr blocks"
      and i: "subscript_idx blocks 1 = Inr tomorrow" and f: "forecast_data tomorrow = Inr forecast"
      by (auto simp: forecast_attempt_def bnd_eq_Inr split: if_splits)
    from second_block [OF i f] obtain bs where "blocks = JArr bs" "2 \<le> length bs" "tomorrow = bs ! 1"
      by blast
    moreover from r j have "answer = Response (fst response) (Decoded data)"
      by (simp add: requests_get_Inr response_json_Inr)
    ultimately show ?thesis using w f by blast
  qed
  from a b show ?thesis by blast
qed

theorem tomorrow_forecast_second_block_witness:
  "get_tomorrow_forecast ''Riyadh'' (wttr_answer [daily_block ''2024-05-08''])
     = Inl (Exception ''Tomorrow's forecast not available'')
   \<and> (\<exists>forecast.
         get_tomorrow_forecast ''Riyadh'' (wttr_answer [daily_block ''2024-05-08'', daily_block ''2024-05-09''])
           = Inr forecast
       \<and> forecast_data (daily_block ''2024-05-09'') = Inr forecast
       \<and> subscript_key forecast ''date'' = Inr (JStr ''2024-05-09''))"
proof -
  let ?one = "[daily_block ''2024-05-08'']"
  let ?two = "[daily_block ''2024-05-08'', daily_block ''2024-05-09'']"
  have "wttr_answer ?one = Response 200 (Decoded (JObj [(''weather'', JArr ?one)]))
      \<and> ((200::nat) < 400 \<or> (600::nat) \<le> 200)
      \<and> subscript_key (JObj [(''weather'', JArr ?one)]) ''weather'' = Inr (JArr ?one)
      \<and> py_len (JArr ?one) = Inr 1 \<and> (1::nat) < 2"
    by (simp add: wttr_answer_def)
  with tomorrow_forecast_second_block [where answer = "wttr_answer ?one" and city = "''Riyadh''"]
  have first: "get_tomorrow_forecast ''Riyadh'' (wttr_answer ?one)
     = Inl (Exception ''Tomorrow's forecast not available'')"
    by blast
  have "weather_field ''date'' (get_tomorrow_forecast ''Riyadh'' (wttr_answer ?two))
          = Inr (JStr ''2024-05-09'')"
    by code_simp
  then obtain forecast where g: "get_tomorrow_forecast ''Riyadh'' (wttr_answer ?two) = Inr forecast"
    and d: "subscript_key forecast ''date'' = Inr (JStr ''2024-05-09'')"
    by (auto simp: weather_field_def bnd_eq_Inr)
  from tomorrow_forecast_second_block [where answer = "wttr_answer ?two" and city = "''Riyadh''"] g
  obtain code data blocks where n: "wttr_answer ?two = Response code (Decoded data)"
    and w: "subscript_key data ''weather'' = Inr (JArr blocks)"
    and f: "forecast_data (blocks ! 1) = Inr forecast"
    by blast
  from n have "data = JObj [(''weather'', JArr ?two)]" by (simp add: wttr_answer_def)
  with w have "blocks = ?two" by simp
  with f have "forecast_data (daily_block ''2024-05-09'') = Inr forecast" by simp
  with first g d show ?thesis by blast
qed

subsection \<open>Historical weather\<close>








section \<open>Properties of the city resolver\<close>

subsection \<open>The cache\<close>

lemma search_cities_hit:
  "2 \<le> length query \<Longrightarrow> cache self (cache_key L query limit) = Some cached \<Longrightarrow>
     search_cities L query limit answer latency self w = (cached, self, w)"
  by (simp add: search_cities_def)

lemma search_cities_short:
  "length query < 2 \<Longrightarrow> search_cities L query limit answer latency self w = ([], self, w)"
  by (simp add: search_cities_def)

lemma search_cities_fetched:
  assumes "2 \<le> length query" "cache self (cache_key L query limit) = None"
    "checked_response answer = Inr response" "unique_cities L response = Inr cities"
  shows "fst (search_cities L query limit answer latency self w) = cities
       \<and> cache (fst (snd (search_cities L query limit answer latency self w)))
            (cache_key L query limit) = Some cities"
  using assms by (simp add: search_cities_def Let_def)

lemma cache_kept:
  "cache self k = Some v \<Longrightarrow>
     cache (fst (snd (search_cities L query limit answer latency self w))) k = Some v"
  by (auto simp: search_cities_def Let_def split: option.splits sum.splits)

lemma cache_kept_after:
  "cache self k = Some v \<Longrightarrow> cache (after_searches L calls self) k = Some v"
proof (induction calls arbitrary: self)
  case Nil
  then show ?case by simp
next
  case (Cons c calls)
  obtain query limit answer latency w where c: "c = (query, limit, answer, latency, w)"
    by (cases c) auto
  from Cons.prems have
    "cache (fst (snd (search_cities L query limit answer latency self w))) k = Some v"
    by (rule cache_kept)
  from Cons.IH [OF this] show ?case by (simp add: c)
qed

lemma not_failed_cached:
  assumes "2 \<le> length query"
    and "(\<exists>cached. cache self (cache_key L query limit) = Some cached)
         \<or> (\<exists>response cities. checked_response answer = Inr response
                \<and> unique_cities L response = Inr cities)"
  shows "cache (fst (snd (search_cities L query limit answer latency self w)))
           (cache_key L query limit)
         = Some (fst (search_cities L query limit answer latency self w))"
proof (cases "cache self (cache_key L query limit)")
  case (Some cached)
  with assms(1) show ?thesis by (simp add: search_cities_hit)
next
  case None
  with assms(2) obtain response cities where "checked_response answer = Inr response"
    "unique_cities L response = Inr cities"
    by auto
  from search_cities_fetched [OF assms(1) None this] show ?thesis by simp
qed

lemma failed_search:
  assumes "2 \<le> length query" "cache self (cache_key L query limit) = None"
    and "(\<exists>e. checked_response answer = Inl e)
         \<or> (\<exists>response e. checked_response answer = Inr response
                \<and> unique_cities L response = Inl e)"
  shows "fst (search_cities L query limit answer latency self w) = []
       \<and> cache (fst (snd (search_cities L query limit answer latency self w))) = cache self"
  using assms by (auto simp: search_cities_def Let_def)

lemma miss_sends:
  assumes "2 \<le> length query" "cache self (cache_key L query limit) = None"
  shows "\<exists>t. requests_sent (snd (snd (search_cities L query limit answer latency self w)))
           = requests_sent w @ [t]"
  using assms
  by (auto simp: search_cities_def Let_def send_request_def sleep_def split: sum.splits)

text \<open>
  C8 (as amended). When a call of \<open>search_cities\<close> has not failed (the query is shorter
  than 2 characters, or the answer was in the cache, or the request was answered and the
  answer was parsed), every later call of the resolver with the same query and limit,
  whatever calls came in between and whatever the state of the world, returns the same
  sequence and leaves the resolver and the world as they were: no request is sent. The
  same holds for a query with the same lower-cased form, the key of the cache. When the
  call has failed (its request or the parsing of the answer raised), it returns the empty
  sequence and leaves the cache as it was, and the same call made next sends a request.
\<close>

theorem cached_search_repeats:
  "(length query < 2
      \<or> (\<exists>cached. cache self (cache_key L query limit) = Some cached)
      \<or> (\<exists>response cities. checked_response answer = Inr response
             \<and> unique_cities L response = Inr cities)
    \<longrightarrow> (\<forall>calls query' answer' latency' w'.
          query' = query
          \<or> (2 \<le> length query \<and> 2 \<le> length query' \<and> str_lower L query' = str_lower L query)
          \<longrightarrow>
          search_cities L query' limit answer' latency'
            (after_searches L calls (fst (snd (search_cities L query limit answer latency self w)))) w'
          = (fst (search_cities L query limit answer latency self w),
             after_searches L calls (fst (snd (search_cities L query limit answer latency self w))),
             w')))
   \<and> (2 \<le> length query \<and> cache self (cache_key L query limit) = None
        \<and> ((\<exists>e. checked_response answer = Inl e)
           \<or> (\<exists>response e. checked_response answer = Inr response
                  \<and> unique_cities L response = Inl e))
    \<longrightarrow> fst (search_cities L query limit answer latency self w) = []
        \<and> cache (fst (snd (search_cities L query limit answer latency self w))) = cache self
        \<and> (\<forall>answer' latency' w'. \<exists>t.
              requests_sent (snd (snd (search_cities L query limit answer' latency'
                 (fst (snd (search_cities L query limit answer latency self w))) w')))
              = requests_sent w' @ [t]))"
proof (intro conjI impI allI)
  fix calls query' answer' latency' w'
  let ?first = "search_cities L query limit answer latency self w"
  assume ok: "length query < 2
      \<or> (\<exists>cached. cache self (cache_key L query limit) = Some cached)
      \<or> (\<exists>response cities. checked_response answer = Inr response
             \<and> unique_cities L response = Inr cities)"
  assume same: "query' = query
          \<or> (2 \<le> length query \<and> 2 \<le> length query' \<and> str_lower L query' = str_lower L query)"
  show "search_cities L query' limit answer' latency' (after_searches L calls (fst (snd ?first))) w'
          = (fst ?first, after_searches L calls (fst (snd ?first)), w')"
  proof (cases "length query < 2")
    case True
    with same have "query' = query" by auto
    with True show ?thesis by (simp add: search_cities_short)
  next
    case False
    then have long: "2 \<le> length query" by simp
    with same have long': "2 \<le> length query'" by auto
    from same have key: "cache_key L query' limit = cache_key L query limit"
      by (auto simp: cache_key_def)
    from long ok have "cache (fst (snd ?first)) (cache_key L query limit) = Some (fst ?first)"
      by (intro not_failed_cached) auto
    then have "cache (after_searches L calls (fst (snd ?first))) (cache_key L query' limit)
                 = Some (fst ?first)"
      unfolding key by (rule cache_kept_after)
    with long' show ?thesis by (rule search_cities_hit)
  qed
next
  let ?first = "search_cities L query limit answer latency self w"
  assume f: "2 \<le> length query \<and> cache self (cache_key L query limit) = None
        \<and> ((\<exists>e. checked_response answer = Inl e)
           \<or> (\<exists>response e. checked_response answer = Inr response
                  \<and> unique_cities L response = Inl e))"
  from f failed_search [of query self L limit answer latency w]
  have r: "fst ?first = [] \<and> cache (fst (snd ?first)) = cache self"
    by blast
  from r show "fst ?first = []" ..
  from r show "cache (fst (snd ?first)) = cache self" ..
  fix answer' latency' w'
  from r f have "cache (fst (snd ?first)) (cache_key L query limit) = None" by simp
  with f show "\<exists>t. requests_sent (snd (snd (search_cities L query limit answer' latency'
                 (fst (snd ?first)) w'))) = requests_sent w' @ [t]"
    by (intro miss_sends) auto
qed

theorem cached_search_repeats_witness:
  "(\<exists>response cities. checked_response paris_answer = Inr response
        \<and> unique_cities ascii_lib response = Inr cities)
   \<and> search_cities ascii_lib ''Paris'' 8 server_error (1 / 10)
         (after_searches ascii_lib [(''London'', 8, server_error, 1 / 5, noon)]
            (fst (snd (search_cities ascii_lib ''Paris'' 8 paris_answer (1 / 5) new_autocomplete noon))))
         noon
       = (fst (search_cities ascii_lib ''Paris'' 8 paris_answer (1 / 5) new_autocomplete noon),
          after_searches ascii_lib [(''London'', 8, server_error, 1 / 5, noon)]
            (fst (snd (search_cities ascii_lib ''Paris'' 8 paris_answer (1 / 5) new_autocomplete noon))),
          noon)
   \<and> 2 \<le> length ''Paris''
   \<and> cache new_autocomplete (cache_key ascii_lib ''Paris'' 8) = None
   \<and> (\<exists>e. checked_response server_error = Inl e)
   \<and> fst (search_cities ascii_lib ''Paris'' 8 server_error (1 / 10) new_autocomplete noon) = []
   \<and> (\<exists>t. requests_sent (snd (snd (search_cities ascii_lib ''Paris'' 8 paris_answer (1 / 5)
           (fst (snd (search_cities ascii_lib ''Paris'' 8 server_error (1 / 10) new_autocomplete noon)))
           noon))) = requests_sent noon @ [t])"
proof -
  have "bnd (checked_response paris_answer) (unique_cities ascii_lib)
          = Inr (fst (search_cities ascii_lib ''Paris'' 8 paris_answer (1 / 5) new_autocomplete noon))"
    by code_simp
  then have h: "\<exists>response cities. checked_response paris_answer = Inr response
        \<and> unique_cities ascii_lib response = Inr cities"
    unfolding bnd_eq_Inr by blast
  have l: "2 \<le> length ''Paris''" by simp
  have m: "cache new_autocomplete (cache_key ascii_lib ''Paris'' 8) = None"
    by (simp add: new_autocomplete_def)
  have "checked_response server_error = Inl (RequestException (str_nat 500 @ '' Error''))"
    by (simp add: checked_response_def server_error_def raise_for_status_def)
  then have f: "\<exists>e. checked_response server_error = Inl e" by blast
  note a = cached_search_repeats [where L = ascii_lib and query = "''Paris''" and limit = 8
      and answer = paris_answer and latency = "1 / 5" and self = new_autocomplete and w = noon]
  note b = cached_search_repeats [where L = ascii_lib and query = "''Paris''" and limit = 8
      and answer = server_error and latency = "1 / 10" and self = new_autocomplete and w = noon]
  from a h have
    "search_cities ascii_lib ''Paris'' 8 server_error (1 / 10)
         (after_searches ascii_lib [(''London'', 8, server_error, 1 / 5, noon)]
            (fst (snd (search_cities ascii_lib ''Paris'' 8 paris_answer (1 / 5) new_autocomplete noon))))
         noon
       = (fst (search_cities ascii_lib ''Paris'' 8 paris_answer (1 / 5) new_autocomplete noon),
          after_searches ascii_lib [(''London'', 8, server_error, 1 / 5, noon)]
            (fst (snd (search_cities ascii_lib ''Paris'' 8 paris_answer (1 / 5) new_autocomplete noon))),
          noon)"
    by blast
  moreover from b l m f have
    "fst (search_cities ascii_lib ''Paris'' 8 server_error (1 / 10) new_autocomplete noon) = []"
    by blast
  moreover from b l m f have
    "\<exists>t. requests_sent (snd (snd (search_cities ascii_lib ''Paris'' 8 paris_answer (1 / 5)
           (fst (snd (search_cities ascii_lib ''Paris'' 8 server_error (1 / 10) new_autocomplete noon)))
           noon))) = requests_sent noon @ [t]"
    by blast
  ultimately show ?thesis using h l m f by (intro conjI)
qed

text \<open>
  The claim as stated fails when the first request is answered with status 500: nothing
  is cached, the first call returns the empty sequence, the second call sends a request
  of its own and returns the two cities of its answer.
\<close>

theorem failed_search_not_cached:
  "fst (then_search ascii_lib ''Paris'' 8 paris_answer (1 / 5)
          (search_cities ascii_lib ''Paris'' 8 server_error (1 / 10) new_autocomplete noon))
     \<noteq> fst (search_cities ascii_lib ''Paris'' 8 server_error (1 / 10) new_autocomplete noon)
   \<and> requests_sent (snd (snd (then_search ascii_lib ''Paris'' 8 paris_answer (1 / 5)
          (search_cities ascii_lib ''Paris'' 8 server_error (1 / 10) new_autocomplete noon))))
     = [43200, 43200 + 1 / 10]"
  by code_simp

subsection \<open>The spacing of requests\<close>

text \<open>
  After a request that was answered without an error status, the next request is sent at
  least the minimum interval after it: the time of the last request is set once
  \<open>raise_for_status\<close> has passed.
\<close>

lemma search_cities_miss_world:
  assumes "2 \<le> length query" "cache self (cache_key L query limit) = None"
  shows "snd (snd (search_cities L query limit answer latency self w)) =
           send_request latency
             (if wall_clock w - last_request_time self < min_request_interval self
              then sleep (min_request_interval self - (wall_clock w - last_request_time self)) w
              else w)"
  using assms by (simp add: search_cities_def Let_def split: sum.splits)

lemma search_cities_checked_time:
  assumes "2 \<le> length query" "cache self (cache_key L query limit) = None"
    "checked_response answer = Inr response"
  shows "last_request_time (fst (snd (search_cities L query limit answer latency self w)))
           = wall_clock (snd (snd (search_cities L query limit answer latency self w)))
       \<and> min_request_interval (fst (snd (search_cities L query limit answer latency self w)))
           = min_request_interval self"
  using assms by (simp add: search_cities_def Let_def split: sum.splits)

lemma spacing_after_answer:
  assumes q1: "2 \<le> length query1" "cache self (cache_key L query1 limit1) = None"
    and ok: "checked_response answer1 = Inr response"
    and lat: "0 \<le> latency1"
    and q2: "2 \<le> length query2"
      "cache (fst (snd (search_cities L query1 limit1 answer1 latency1 self w)))
         (cache_key L query2 limit2) = None"
  shows "\<exists>t1 t2.
           requests_sent (snd (snd (then_search L query2 limit2 answer2 latency2
              (search_cities L query1 limit1 answer1 latency1 self w))))
             = requests_sent w @ [t1, t2]
         \<and> t1 + min_request_interval self \<le> t2"
proof -
  let ?r1 = "search_cities L query1 limit1 answer1 latency1 self w"
  let ?self1 = "fst (snd ?r1)" and ?w1 = "snd (snd ?r1)"
  let ?w0 = "if wall_clock w - last_request_time self < min_request_interval self
              then sleep (min_request_interval self - (wall_clock w - last_request_time self)) w
              else w"
  have w1: "?w1 = send_request latency1 ?w0"
    by (rule search_cities_miss_world [OF q1])
  from search_cities_checked_time [OF q1 ok]
  have t: "last_request_time ?self1 = wall_clock ?w1"
    and m: "min_request_interval ?self1 = min_request_interval self"
    by blast+
  let ?w2 = "if wall_clock ?w1 - last_request_time ?self1 < min_request_interval ?self1
              then sleep (min_request_interval ?self1 - (wall_clock ?w1 - last_request_time ?self1)) ?w1
              else ?w1"
  have w3: "snd (snd (then_search L query2 limit2 answer2 latency2 ?r1)) = send_request latency2 ?w2"
    unfolding then_search_def by (rule search_cities_miss_world [OF q2])
  have sent0: "requests_sent ?w0 = requests_sent w" by (simp add: sleep_def)
  have sent1: "requests_sent ?w1 = requests_sent w @ [wall_clock ?w0]"
    unfolding w1 by (simp add: send_request_def sent0)
  have clock1: "wall_clock ?w1 = wall_clock ?w0 + latency1"
    unfolding w1 by (simp add: send_request_def)
  have sent2: "requests_sent ?w2 = requests_sent ?w1" by (simp add: sleep_def)
  have clock2: "wall_clock ?w1 + min_request_interval self \<le> wall_clock ?w2"
    using t m by (simp add: sleep_def)
  have "requests_sent (send_request latency2 ?w2) = requests_sent w @ [wall_clock ?w0, wall_clock ?w2]"
    by (simp add: send_request_def sent2 sent1)
  moreover have "wall_clock ?w0 + min_request_interval self \<le> wall_clock ?w2"
    using clock1 clock2 lat by linarith
  ultimately show ?thesis unfolding w3 by blast
qed

text \<open>
  C9. Two searches at noon, for Paris and then for London. The request of the first is
  answered with status 500 after a tenth of a second, so the time of the last request is
  not set, and the second search sends its request at once: the two requests are a tenth
  of a second apart, not a second.
\<close>

theorem failed_request_not_spaced:
  "requests_sent (snd (snd (then_search ascii_lib ''London'' 8 paris_answer (1 / 5)
          (search_cities ascii_lib ''Paris'' 8 server_error (1 / 10) new_autocomplete noon))))
   = [43200, 43200 + 1 / 10]"
  by code_simp

end
